theory Spec2Isabelle
  imports Main "HOL-Library.Sublist"
begin

section \<open>JavaScript strings\<close>

text \<open>
  The pages read strings with \<^verbatim>\<open>trim\<close>, \<^verbatim>\<open>toLowerCase\<close>, \<^verbatim>\<open>includes\<close> and the
  \<^verbatim>\<open>||\<close> operator. A string is a list of 8-bit characters, read as the code points
  U+0000 to U+00FF. In that range \<^verbatim>\<open>toLowerCase\<close> adds 32 to A-Z and to
  U+00C0..U+00DE except the multiplication sign U+00D7, and the white space removed by
  \<^verbatim>\<open>trim\<close> is tab, line feed, vertical tab, form feed, carriage return, space and the
  no-break space U+00A0.
\<close>

definition lower_char :: "char \<Rightarrow> char" where
  "lower_char c =
     (let n = (of_char c :: nat)
      in if (65 \<le> n \<and> n \<le> 90) \<or> (192 \<le> n \<and> n \<le> 222 \<and> n \<noteq> 215)
         then char_of (n + 32) else c)"

definition toLowerCase :: "string \<Rightarrow> string" where
  "toLowerCase s = map lower_char s"

definition is_white :: "char \<Rightarrow> bool" where
  "is_white c =
     (c \<in> set [CHR 0x09, CHR 0x0A, CHR 0x0B, CHR 0x0C, CHR 0x0D, CHR 0x20, CHR 0xA0])"

definition trim :: "string \<Rightarrow> string" where
  "trim s = rev (dropWhile is_white (rev (dropWhile is_white s)))"

text \<open>\<^verbatim>\<open>s.includes(q)\<close>: \<open>q\<close> occurs in \<open>s\<close> at some position; the empty string
  occurs in every string.\<close>

fun js_includes :: "string \<Rightarrow> string \<Rightarrow> bool" where
  "js_includes [] q = (q = [])"
| "js_includes (c # s) q = (take (length q) (c # s) = q \<or> js_includes s q)"

text \<open>\<^verbatim>\<open>v || d\<close> on a value that is a string, \<^verbatim>\<open>null\<close> or \<^verbatim>\<open>undefined\<close>: the
  empty string is falsy too.\<close>

definition or_else :: "string option \<Rightarrow> string \<Rightarrow> string" where
  "or_else v d = (case v of None \<Rightarrow> d | Some s \<Rightarrow> if s = [] then d else s)"

text \<open>\<^verbatim>\<open>data || []\<close> on a result list that may be \<^verbatim>\<open>null\<close>.\<close>

definition or_empty :: "'a list option \<Rightarrow> 'a list" where
  "or_empty v = (case v of None \<Rightarrow> [] | Some xs \<Rightarrow> xs)"

text \<open>\<^verbatim>\<open>[...new Set(xs)]\<close>: the distinct values of \<open>xs\<close>, each at the place of its first
  occurrence.\<close>

definition Set_add :: "'a \<Rightarrow> 'a list \<Rightarrow> 'a list" where
  "Set_add x acc = (if x \<in> set acc then acc else acc @ [x])"

definition spread_Set :: "'a list \<Rightarrow> 'a list" where
  "spread_Set xs = fold Set_add xs []"

section \<open>The backend and the effects of a handler\<close>

text \<open>
  A query of the backend client: a select with an equality filter (ordered by
  \<^verbatim>\<open>created_at\<close>, newest first), a select with a membership filter, an insert of one row
  (column names with their values) and a delete with an equality filter. The arguments are
  the table, then the projection, the filter column and the filter value.
\<close>

datatype query =
    Select_eq string string string string
  | Select_in string string string "string list"
  | Insert string "(string \<times> string) list"
  | Delete_eq string string string

record PostgrestError =
  code :: string
  message :: string

text \<open>The object an awaited query resolves to, \<^verbatim>\<open>{ data, error }\<close>; the await may also
  throw, which the handlers catch.\<close>

datatype 'a response = Response "'a list option" "PostgrestError option"

datatype 'a awaited = Resolved 'a | Threw

text \<open>What a handler does besides updating the component state, in order.\<close>

datatype event =
    Request query
  | Toast_error string
  | Toast_success string
  | Navigate string
  | Console_error string

fun is_toast :: "event \<Rightarrow> bool" where
  "is_toast (Toast_error m) = True"
| "is_toast (Toast_success m) = True"
| "is_toast e = False"

fun is_request :: "event \<Rightarrow> bool" where
  "is_request (Request q) = True"
| "is_request e = False"

fun is_navigate :: "event \<Rightarrow> bool" where
  "is_navigate (Navigate r) = True"
| "is_navigate e = False"

section \<open>The submit handlers of the two forms\<close>

text \<open>
  \<^verbatim>\<open>formData\<close> of the donation form, and of the help-request form, which has
  \<^verbatim>\<open>urgency\<close> too. \<^verbatim>\<open>user\<close> is the signed-in account, of which the handlers read the id
  only: \<open>None\<close> when nobody is signed in. The handlers return the \<^verbatim>\<open>loading\<close> flag
  and their effects.
\<close>

record FormData =
  title :: string
  category :: string
  description :: string
  location :: string

record HelpRequestFormData = FormData +
  urgency :: string

text \<open>The insert each form issues: the table and the object literal of the row.\<close>

definition DonationForm_insert :: "string \<Rightarrow> FormData \<Rightarrow> query" where
  "DonationForm_insert uid formData =
     Insert ''donations''
       [(''user_id'', uid),
        (''title'', trim (title formData)),
        (''description'', trim (description formData)),
        (''category'', category formData),
        (''location'', trim (location formData))]"

definition HelpRequestForm_insert :: "string \<Rightarrow> HelpRequestFormData \<Rightarrow> query" where
  "HelpRequestForm_insert uid formData =
     Insert ''help_requests''
       [(''user_id'', uid),
        (''title'', trim (title formData)),
        (''description'', trim (description formData)),
        (''category'', category formData),
        (''location'', trim (location formData)),
        (''urgency'', urgency formData)]"

definition DonationForm_handleSubmit ::
  "string option \<Rightarrow> FormData \<Rightarrow> (query \<Rightarrow> unit response awaited) \<Rightarrow> bool
     \<Rightarrow> bool \<times> event list" where
  "DonationForm_handleSubmit user formData backend loading =
     (case user of
        None \<Rightarrow>
          (loading, [Toast_error ''Please sign in to submit a donation'', Navigate ''/login''])
      | Some uid \<Rightarrow>
          if trim (title formData) = [] then
            (loading, [Toast_error ''Please enter a title''])
          else if category formData = [] then
            (loading, [Toast_error ''Please select a category''])
          else if trim (description formData) = [] then
            (loading, [Toast_error ''Please enter a description''])
          else if trim (location formData) = [] then
            (loading, [Toast_error ''Please enter a location''])
          else
            let q = DonationForm_insert uid formData
            in (False,
                Request q #
                (case backend q of
                   Resolved (Response d (Some err)) \<Rightarrow>
                     [Toast_error
                        (if code err = ''23503'' then
                           ''User profile not found. Please try logging out and back in.''
                         else if code err = ''42501'' then
                           ''Permission denied. Please ensure you're logged in.''
                         else ''Failed to submit donation. Please try again.''),
                      Console_error ''Donation error:'']
                 | Resolved (Response d None) \<Rightarrow>
                     [Toast_success ''Donation submitted successfully!'',
                      Navigate ''/donation-success'']
                 | Threw \<Rightarrow>
                     [Toast_error ''An unexpected error occurred. Please try again.'',
                      Console_error ''Unexpected error:''])))"

definition HelpRequestForm_handleSubmit ::
  "string option \<Rightarrow> HelpRequestFormData \<Rightarrow> (query \<Rightarrow> unit response awaited) \<Rightarrow> bool
     \<Rightarrow> bool \<times> event list" where
  "HelpRequestForm_handleSubmit user formData backend loading =
     (case user of
        None \<Rightarrow>
          (loading,
           [Toast_error ''Please sign in to submit a help request'', Navigate ''/login''])
      | Some uid \<Rightarrow>
          if trim (title formData) = [] then
            (loading, [Toast_error ''Please enter a title''])
          else if category formData = [] then
            (loading, [Toast_error ''Please select a category''])
          else if trim (description formData) = [] then
            (loading, [Toast_error ''Please enter a description''])
          else if trim (location formData) = [] then
            (loading, [Toast_error ''Please enter a location''])
          else if urgency formData = [] then
            (loading, [Toast_error ''Please select an urgency level''])
          else
            let q = HelpRequestForm_insert uid formData
            in (False,
                Request q #
                (case backend q of
                   Resolved (Response d (Some err)) \<Rightarrow>
                     [Toast_error
                        (if code err = ''23503'' then
                           ''User profile not found. Please try logging out and back in.''
                         else if code err = ''42501'' then
                           ''Permission denied. Please ensure you're logged in.''
                         else ''Failed to submit help request. Please try again.''),
                      Console_error ''Help request error:'']
                 | Resolved (Response d None) \<Rightarrow>
                     [Toast_success ''Help request submitted successfully!'',
                      Navigate ''/request-success'']
                 | Threw \<Rightarrow>
                     [Toast_error ''An unexpected error occurred. Please try again.'',
                      Console_error ''Unexpected error:''])))"

text \<open>The required fields of a form are all non-empty after trimming; a category and an
  urgency are selected when they are not the empty string.\<close>

definition DonationForm_complete :: "FormData \<Rightarrow> bool" where
  "DonationForm_complete formData =
     (trim (title formData) \<noteq> [] \<and> category formData \<noteq> [] \<and>
      trim (description formData) \<noteq> [] \<and> trim (location formData) \<noteq> [])"

definition HelpRequestForm_complete :: "HelpRequestFormData \<Rightarrow> bool" where
  "HelpRequestForm_complete formData =
     (trim (title formData) \<noteq> [] \<and> category formData \<noteq> [] \<and>
      trim (description formData) \<noteq> [] \<and> trim (location formData) \<noteq> [] \<and>
      urgency formData \<noteq> [])"

section \<open>Rows\<close>

text \<open>
  The row interfaces. TypeScript interfaces are structural, so an interface with more
  fields is a record extension: \<open>Listing\<close> is the profile page's \<^verbatim>\<open>Donation\<close>,
  \<open>MyHelpRequest\<close> the profile page's \<^verbatim>\<open>HelpRequest\<close>, \<open>Donation\<close> and
  \<open>HelpRequest\<close> are the interfaces of the two listing pages, and the rows a listing page
  keeps carry \<^verbatim>\<open>userName\<close> as well.
\<close>

record Profile =
  id' :: string
  full_name :: "string option"

record Listing =
  id' :: string
  title :: string
  description :: "string option"
  category :: string
  created_at :: string

record MyHelpRequest = Listing +
  urgency :: string

record Donation = Listing +
  location :: "string option"
  user_id :: string

record HelpRequest = Donation +
  urgency :: string

record DonationWithName = Donation +
  userName :: string

record HelpRequestWithName = HelpRequest +
  userName :: string

section \<open>The listing pages\<close>

record PageState =
  loading :: bool
  error :: "string option"

record ListingState = PageState +
  searchQuery :: string
  selectedCategory :: string

record HelpRequestsState = ListingState +
  requests :: "HelpRequestWithName list"

record DonationsState = ListingState +
  donations :: "DonationWithName list"

text \<open>
  The profile lookup of a listing page, \<^verbatim>\<open>profileMap\<close>: nothing is asked of the backend
  when there is no user id; an error returned by the profiles query is logged and leaves the
  map empty; otherwise every profile returned is stored under its id, a later one replacing
  an earlier one with the same id. The result is \<open>None\<close> when the await threw.
\<close>

definition profileMap_set :: "Profile \<Rightarrow> (string \<rightharpoonup> string) \<Rightarrow> (string \<rightharpoonup> string)" where
  "profileMap_set p m = m(Profile.id' p \<mapsto> or_else (full_name p) ''Anonymous'')"

definition fetchProfileMap ::
  "(query \<Rightarrow> Profile response awaited) \<Rightarrow> string list
     \<Rightarrow> event list \<times> (string \<rightharpoonup> string) option" where
  "fetchProfileMap backend userIds =
     (if 0 < length userIds then
        let q = Select_in ''profiles'' ''id, full_name'' ''id'' userIds
        in case backend q of
             Resolved (Response profilesData (Some profilesError)) \<Rightarrow>
               ([Request q, Console_error ''Profiles fetch error:''], Some Map.empty)
           | Resolved (Response profilesData None) \<Rightarrow>
               ([Request q], Some (fold profileMap_set (or_empty profilesData) Map.empty))
           | Threw \<Rightarrow> ([Request q], None)
      else ([], Some Map.empty))"

text \<open>The body of the \<^verbatim>\<open>try\<close> block of \<^verbatim>\<open>fetchRequests\<close>: the effects, and the rows with
  their names, or \<open>None\<close> when something was thrown.\<close>

definition fetchRequests_try ::
  "(query \<Rightarrow> HelpRequest response awaited) \<Rightarrow> (query \<Rightarrow> Profile response awaited)
     \<Rightarrow> event list \<times> HelpRequestWithName list option" where
  "fetchRequests_try backend profiles =
     (let q = Select_eq ''help_requests'' ''*'' ''status'' ''open''
      in case backend q of
           Resolved (Response requestsData (Some requestsError)) \<Rightarrow>
             ([Request q, Console_error ''Requests fetch error:''], None)
         | Resolved (Response requestsData None) \<Rightarrow>
             let userIds = spread_Set (map user_id (or_empty requestsData))
             in (case fetchProfileMap profiles userIds of
                   (evs, Some profileMap) \<Rightarrow>
                     (Request q # evs,
                      Some (map (\<lambda>r. HelpRequest.extend r
                                   (HelpRequestWithName.fields
                                      (or_else (profileMap (user_id r)) ''Anonymous'')))
                              (or_empty requestsData)))
                 | (evs, None) \<Rightarrow> (Request q # evs, None))
         | Threw \<Rightarrow> ([Request q], None))"

definition fetchRequests ::
  "(query \<Rightarrow> HelpRequest response awaited) \<Rightarrow> (query \<Rightarrow> Profile response awaited)
     \<Rightarrow> HelpRequestsState \<Rightarrow> HelpRequestsState \<times> event list" where
  "fetchRequests backend profiles st =
     (case fetchRequests_try backend profiles of
        (evs, Some requestsWithNames) \<Rightarrow>
          (st\<lparr>error := None, requests := requestsWithNames, loading := False\<rparr>, evs)
      | (evs, None) \<Rightarrow>
          (st\<lparr>error := Some ''Failed to load help requests. Please try again.'',
              loading := False\<rparr>,
           evs @ [Console_error ''Fetch error:'']))"

definition fetchDonations_try ::
  "(query \<Rightarrow> Donation response awaited) \<Rightarrow> (query \<Rightarrow> Profile response awaited)
     \<Rightarrow> event list \<times> DonationWithName list option" where
  "fetchDonations_try backend profiles =
     (let q = Select_eq ''donations'' ''*'' ''status'' ''available''
      in case backend q of
           Resolved (Response donationsData (Some donationsError)) \<Rightarrow>
             ([Request q, Console_error ''Donations fetch error:''], None)
         | Resolved (Response donationsData None) \<Rightarrow>
             let userIds = spread_Set (map user_id (or_empty donationsData))
             in (case fetchProfileMap profiles userIds of
                   (evs, Some profileMap) \<Rightarrow>
                     (Request q # evs,
                      Some (map (\<lambda>d. Donation.extend d
                                   (DonationWithName.fields
                                      (or_else (profileMap (user_id d)) ''Anonymous'')))
                              (or_empty donationsData)))
                 | (evs, None) \<Rightarrow> (Request q # evs, None))
         | Threw \<Rightarrow> ([Request q], None))"

definition fetchDonations ::
  "(query \<Rightarrow> Donation response awaited) \<Rightarrow> (query \<Rightarrow> Profile response awaited)
     \<Rightarrow> DonationsState \<Rightarrow> DonationsState \<times> event list" where
  "fetchDonations backend profiles st =
     (case fetchDonations_try backend profiles of
        (evs, Some donationsWithNames) \<Rightarrow>
          (st\<lparr>error := None, donations := donationsWithNames, loading := False\<rparr>, evs)
      | (evs, None) \<Rightarrow>
          (st\<lparr>error := Some ''Failed to load donations. Please try again.'',
              loading := False\<rparr>,
           evs @ [Console_error ''Fetch error:'']))"

text \<open>The client-side filter; \<open>matchesSearch\<close> and \<open>matchesCategory\<close> are the two
  constants of the filter callback, the same on both pages.\<close>

definition matchesSearch :: "string \<Rightarrow> 'a Listing_scheme \<Rightarrow> bool" where
  "matchesSearch q item =
     (js_includes (toLowerCase (title item)) (toLowerCase q) \<or>
      (case description item of
         None \<Rightarrow> False
       | Some d \<Rightarrow> js_includes (toLowerCase d) (toLowerCase q)))"

definition matchesCategory :: "string \<Rightarrow> 'a Listing_scheme \<Rightarrow> bool" where
  "matchesCategory sel item = (sel = ''All'' \<or> category item = sel)"

definition filteredRequests :: "HelpRequestsState \<Rightarrow> HelpRequestWithName list" where
  "filteredRequests st =
     filter (\<lambda>request. matchesSearch (searchQuery st) request \<and>
                        matchesCategory (selectedCategory st) request)
       (requests st)"

definition filteredDonations :: "DonationsState \<Rightarrow> DonationWithName list" where
  "filteredDonations st =
     filter (\<lambda>donation. matchesSearch (searchQuery st) donation \<and>
                         matchesCategory (selectedCategory st) donation)
       (donations st)"

section \<open>The profile page\<close>

record ProfileState = PageState +
  donations :: "Listing list"
  requests :: "MyHelpRequest list"

definition fetchUserData_failed :: "ProfileState \<Rightarrow> ProfileState" where
  "fetchUserData_failed st =
     st\<lparr>error := Some ''Failed to load your data. Please try refreshing the page.'',
        loading := False\<rparr>"

text \<open>\<^verbatim>\<open>fetchUserData\<close>: both queries are issued before either result is looked at;
  \<^verbatim>\<open>Promise.all\<close> throws when either await throws.\<close>

definition fetchUserData ::
  "string option \<Rightarrow> (query \<Rightarrow> Listing response awaited)
     \<Rightarrow> (query \<Rightarrow> MyHelpRequest response awaited)
     \<Rightarrow> ProfileState \<Rightarrow> ProfileState \<times> event list" where
  "fetchUserData user donationsBackend requestsBackend st =
     (case user of
        None \<Rightarrow> (st, [])
      | Some uid \<Rightarrow>
          let q1 = Select_eq ''donations'' ''id, title, description, category, created_at''
                     ''user_id'' uid;
              q2 = Select_eq ''help_requests''
                     ''id, title, description, category, urgency, created_at''
                     ''user_id'' uid
          in (case donationsBackend q1 of
               Threw \<Rightarrow>
                 (fetchUserData_failed st,
                  [Request q1, Request q2, Console_error ''Profile data fetch error:''])
             | Resolved (Response donationsData donationsError) \<Rightarrow>
                 (case requestsBackend q2 of
                    Threw \<Rightarrow>
                      (fetchUserData_failed st,
                       [Request q1, Request q2, Console_error ''Profile data fetch error:''])
                  | Resolved (Response requestsData requestsError) \<Rightarrow>
                      if donationsError \<noteq> None then
                        (fetchUserData_failed st,
                         [Request q1, Request q2, Console_error ''Donations fetch error:'',
                          Console_error ''Profile data fetch error:''])
                      else if requestsError \<noteq> None then
                        (fetchUserData_failed st,
                         [Request q1, Request q2, Console_error ''Requests fetch error:'',
                          Console_error ''Profile data fetch error:''])
                      else
                        (st\<lparr>error := None,
                            ProfileState.donations := or_empty donationsData,
                            ProfileState.requests := or_empty requestsData,
                            loading := False\<rparr>,
                         [Request q1, Request q2]))))"

text \<open>
  The delete handlers. A handler is a closure of the render that created it: the
  \<^verbatim>\<open>donations\<close> (or \<^verbatim>\<open>requests\<close>) array it filters after the await is the one
  that render read from the state, here \<open>captured\<close>, and the setter stores the filtered
  array as a value over the list the page holds when the answer arrives.
\<close>

definition handleDeleteDonation ::
  "(query \<Rightarrow> unit response awaited) \<Rightarrow> string \<Rightarrow> Listing list \<Rightarrow> ProfileState
     \<Rightarrow> ProfileState \<times> event list" where
  "handleDeleteDonation backend i captured st =
     (let q = Delete_eq ''donations'' ''id'' i
      in case backend q of
           Resolved (Response d (Some err)) \<Rightarrow>
             (st,
              [Request q,
               Toast_error
                 (if code err = ''42501'' then
                    ''You don't have permission to delete this donation''
                  else ''Failed to delete donation''),
               Console_error ''Delete donation error:''])
         | Resolved (Response d None) \<Rightarrow>
             (st\<lparr>ProfileState.donations := filter (\<lambda>d. Listing.id' d \<noteq> i) captured\<rparr>,
              [Request q, Toast_success ''Donation deleted successfully''])
         | Threw \<Rightarrow>
             (st,
              [Request q, Toast_error ''An unexpected error occurred'',
               Console_error ''Unexpected delete error:'']))"

definition handleDeleteRequest ::
  "(query \<Rightarrow> unit response awaited) \<Rightarrow> string \<Rightarrow> MyHelpRequest list \<Rightarrow> ProfileState
     \<Rightarrow> ProfileState \<times> event list" where
  "handleDeleteRequest backend i captured st =
     (let q = Delete_eq ''help_requests'' ''id'' i
      in case backend q of
           Resolved (Response d (Some err)) \<Rightarrow>
             (st,
              [Request q,
               Toast_error
                 (if code err = ''42501'' then
                    ''You don't have permission to delete this request''
                  else ''Failed to delete request''),
               Console_error ''Delete request error:''])
         | Resolved (Response d None) \<Rightarrow>
             (st\<lparr>ProfileState.requests := filter (\<lambda>r. Listing.id' r \<noteq> i) captured\<rparr>,
              [Request q, Toast_success ''Request deleted successfully''])
         | Threw \<Rightarrow>
             (st,
              [Request q, Toast_error ''An unexpected error occurred'',
               Console_error ''Unexpected delete error:'']))"

section \<open>Properties of the submit handlers\<close>

text \<open>A string is empty after trimming exactly when it is empty or consists of white space
  only.\<close>

lemma dropWhile_all_iff: "(\<forall>x \<in> set (dropWhile P s). P x) \<longleftrightarrow> (\<forall>x \<in> set s. P x)"
proof
  assume a: "\<forall>x \<in> set (dropWhile P s). P x"
  have "dropWhile P s = []"
  proof (rule ccontr)
    assume n: "dropWhile P s \<noteq> []"
    then have "\<not> P (hd (dropWhile P s))" by (rule hd_dropWhile)
    moreover have "hd (dropWhile P s) \<in> set (dropWhile P s)" using n by simp
    ultimately show False using a by blast
  qed
  then show "\<forall>x \<in> set s. P x" by (simp add: dropWhile_eq_Nil_conv)
next
  assume "\<forall>x \<in> set s. P x"
  then show "\<forall>x \<in> set (dropWhile P s). P x" by (blast dest: set_dropWhileD)
qed

lemma trim_empty_iff: "trim s = [] \<longleftrightarrow> (\<forall>c \<in> set s. is_white c)"
  by (simp add: trim_def dropWhile_eq_Nil_conv dropWhile_all_iff)

text \<open>The effects of a submit, branch by branch: nobody signed in, a required field
  missing, and the insert issued.\<close>

lemma DonationForm_no_user:
  "snd (DonationForm_handleSubmit None fd backend l) =
     [Toast_error ''Please sign in to submit a donation'', Navigate ''/login'']"
  by (simp add: DonationForm_handleSubmit_def)

lemma DonationForm_blocked:
  assumes "\<not> DonationForm_complete fd"
  shows "snd (DonationForm_handleSubmit (Some uid) fd backend l) \<in>
     {[Toast_error ''Please enter a title''],
      [Toast_error ''Please select a category''],
      [Toast_error ''Please enter a description''],
      [Toast_error ''Please enter a location'']}"
proof -
  consider (a) "trim (FormData.title fd) = []"
    | (b) "trim (FormData.title fd) \<noteq> []" "FormData.category fd = []"
    | (c) "trim (FormData.title fd) \<noteq> []" "FormData.category fd \<noteq> []" "trim (FormData.description fd) = []"
    | (d) "trim (FormData.title fd) \<noteq> []" "FormData.category fd \<noteq> []" "trim (FormData.description fd) \<noteq> []" "trim (FormData.location fd) = []"
    using assms unfolding DonationForm_complete_def by blast
  then show ?thesis
    by cases (simp_all add: DonationForm_handleSubmit_def)
qed

lemma DonationForm_issued:
  assumes "DonationForm_complete fd"
  shows "snd (DonationForm_handleSubmit (Some uid) fd backend l) =
     Request (DonationForm_insert uid fd) #
       (case backend (DonationForm_insert uid fd) of
          Resolved (Response d (Some err)) \<Rightarrow>
            [Toast_error
               (if code err = ''23503'' then
                  ''User profile not found. Please try logging out and back in.''
                else if code err = ''42501'' then
                  ''Permission denied. Please ensure you're logged in.''
                else ''Failed to submit donation. Please try again.''),
             Console_error ''Donation error:'']
        | Resolved (Response d None) \<Rightarrow>
            [Toast_success ''Donation submitted successfully!'', Navigate ''/donation-success'']
        | Threw \<Rightarrow>
            [Toast_error ''An unexpected error occurred. Please try again.'',
             Console_error ''Unexpected error:''])"
  using assms by (simp add: DonationForm_handleSubmit_def DonationForm_complete_def Let_def)

lemma DonationForm_blocked_no_request:
  assumes "\<not> DonationForm_complete fd"
  shows "filter is_request (snd (DonationForm_handleSubmit user fd backend l)) = []"
    and "\<exists>m. filter is_toast (snd (DonationForm_handleSubmit user fd backend l)) = [Toast_error m]"
proof -
  show "filter is_request (snd (DonationForm_handleSubmit user fd backend l)) = []"
  proof (cases user)
    case None
    then show ?thesis by (simp add: DonationForm_no_user)
  next
    case (Some uid)
    from DonationForm_blocked [OF assms, of uid backend l] show ?thesis
      unfolding Some by (elim insertE emptyE) simp_all
  qed
  show "\<exists>m. filter is_toast (snd (DonationForm_handleSubmit user fd backend l)) = [Toast_error m]"
  proof (cases user)
    case None
    then show ?thesis by (simp add: DonationForm_no_user)
  next
    case (Some uid)
    from DonationForm_blocked [OF assms, of uid backend l] show ?thesis
      unfolding Some by (elim insertE emptyE) simp_all
  qed
qed

lemma DonationForm_request_iff:
  "Request q \<in> set (snd (DonationForm_handleSubmit user fd backend l)) \<longleftrightarrow>
     (\<exists>uid. user = Some uid \<and> DonationForm_complete fd \<and> q = DonationForm_insert uid fd)"
proof (cases user)
  case None
  then show ?thesis by (simp add: DonationForm_no_user)
next
  case (Some uid)
  show ?thesis
  proof (cases "DonationForm_complete fd")
    case True
    then show ?thesis unfolding Some
      by (simp add: DonationForm_issued split: awaited.splits response.splits option.splits)
  next
    case False
    from DonationForm_blocked [OF False, of uid backend l]
    have "\<not> Request q \<in> set (snd (DonationForm_handleSubmit (Some uid) fd backend l))"
      by (elim insertE emptyE) simp_all
    then show ?thesis using False Some by simp
  qed
qed

lemma HelpRequestForm_no_user:
  "snd (HelpRequestForm_handleSubmit None fd backend l) =
     [Toast_error ''Please sign in to submit a help request'', Navigate ''/login'']"
  by (simp add: HelpRequestForm_handleSubmit_def)

lemma HelpRequestForm_blocked:
  assumes "\<not> HelpRequestForm_complete fd"
  shows "snd (HelpRequestForm_handleSubmit (Some uid) fd backend l) \<in>
     {[Toast_error ''Please enter a title''],
      [Toast_error ''Please select a category''],
      [Toast_error ''Please enter a description''],
      [Toast_error ''Please enter a location''],
      [Toast_error ''Please select an urgency level'']}"
proof -
  consider (a) "trim (FormData.title fd) = []"
    | (b) "trim (FormData.title fd) \<noteq> []" "FormData.category fd = []"
    | (c) "trim (FormData.title fd) \<noteq> []" "FormData.category fd \<noteq> []" "trim (FormData.description fd) = []"
    | (d) "trim (FormData.title fd) \<noteq> []" "FormData.category fd \<noteq> []" "trim (FormData.description fd) \<noteq> []" "trim (FormData.location fd) = []"
    | (e) "trim (FormData.title fd) \<noteq> []" "FormData.category fd \<noteq> []" "trim (FormData.description fd) \<noteq> []" "trim (FormData.location fd) \<noteq> []" "HelpRequestFormData.urgency fd = []"
    using assms unfolding HelpRequestForm_complete_def by blast
  then show ?thesis
    by cases (simp_all add: HelpRequestForm_handleSubmit_def)
qed

lemma HelpRequestForm_issued:
  assumes "HelpRequestForm_complete fd"
  shows "snd (HelpRequestForm_handleSubmit (Some uid) fd backend l) =
     Request (HelpRequestForm_insert uid fd) #
       (case backend (HelpRequestForm_insert uid fd) of
          Resolved (Response d (Some err)) \<Rightarrow>
            [Toast_error
               (if code err = ''23503'' then
                  ''User profile not found. Please try logging out and back in.''
                else if code err = ''42501'' then
                  ''Permission denied. Please ensure you're logged in.''
                else ''Failed to submit help request. Please try again.''),
             Console_error ''Help request error:'']
        | Resolved (Response d None) \<Rightarrow>
            [Toast_success ''Help request submitted successfully!'', Navigate ''/request-success'']
        | Threw \<Rightarrow>
            [Toast_error ''An unexpected error occurred. Please try again.'',
             Console_error ''Unexpected error:''])"
  using assms by (simp add: HelpRequestForm_handleSubmit_def HelpRequestForm_complete_def Let_def)

lemma HelpRequestForm_blocked_no_request:
  assumes "\<not> HelpRequestForm_complete fd"
  shows "filter is_request (snd (HelpRequestForm_handleSubmit user fd backend l)) = []"
    and "\<exists>m. filter is_toast (snd (HelpRequestForm_handleSubmit user fd backend l)) = [Toast_error m]"
proof -
  show "filter is_request (snd (HelpRequestForm_handleSubmit user fd backend l)) = []"
  proof (cases user)
    case None
    then show ?thesis by (simp add: HelpRequestForm_no_user)
  next
    case (Some uid)
    from HelpRequestForm_blocked [OF assms, of uid backend l] show ?thesis
      unfolding Some by (elim insertE emptyE) simp_all
  qed
  show "\<exists>m. filter is_toast (snd (HelpRequestForm_handleSubmit user fd backend l)) = [Toast_error m]"
  proof (cases user)
    case None
    then show ?thesis by (simp add: HelpRequestForm_no_user)
  next
    case (Some uid)
    from HelpRequestForm_blocked [OF assms, of uid backend l] show ?thesis
      unfolding Some by (elim insertE emptyE) simp_all
  qed
qed

lemma HelpRequestForm_request_iff:
  "Request q \<in> set (snd (HelpRequestForm_handleSubmit user fd backend l)) \<longleftrightarrow>
     (\<exists>uid. user = Some uid \<and> HelpRequestForm_complete fd \<and> q = HelpRequestForm_insert uid fd)"
proof (cases user)
  case None
  then show ?thesis by (simp add: HelpRequestForm_no_user)
next
  case (Some uid)
  show ?thesis
  proof (cases "HelpRequestForm_complete fd")
    case True
    then show ?thesis unfolding Some
      by (simp add: HelpRequestForm_issued split: awaited.splits response.splits option.splits)
  next
    case False
    from HelpRequestForm_blocked [OF False, of uid backend l]
    have "\<not> Request q \<in> set (snd (HelpRequestForm_handleSubmit (Some uid) fd backend l))"
      by (elim insertE emptyE) simp_all
    then show ?thesis using False Some by simp
  qed
qed

text \<open>
  Claim C1. When the insert issued by the submit handler of the donation form or of the
  help-request form comes back with an error, the one toast shown depends on the error code
  only: the profile-not-found message for code 23503, the permission-denied message for
  code 42501, and the form's generic failure message for any other code; nothing is
  navigated to. When the insert comes back without an error, the handler navigates to the
  form's confirmation route.
\<close>

theorem submit_rejection_message:
  "(let evs = snd (DonationForm_handleSubmit user fd backend l) in
      Request q \<in> set evs \<longrightarrow>
        (\<forall>d e. backend q = Resolved (Response d (Some e)) \<longrightarrow>
           filter is_toast evs =
             [Toast_error
                (if code e = ''23503'' then
                   ''User profile not found. Please try logging out and back in.''
                 else if code e = ''42501'' then
                   ''Permission denied. Please ensure you're logged in.''
                 else ''Failed to submit donation. Please try again.'')] \<and>
           filter is_navigate evs = []) \<and>
        (\<forall>d. backend q = Resolved (Response d None) \<longrightarrow>
           filter is_navigate evs = [Navigate ''/donation-success''])) \<and>
   (let evs = snd (HelpRequestForm_handleSubmit user' fd' backend' l') in
      Request q' \<in> set evs \<longrightarrow>
        (\<forall>d e. backend' q' = Resolved (Response d (Some e)) \<longrightarrow>
           filter is_toast evs =
             [Toast_error
                (if code e = ''23503'' then
                   ''User profile not found. Please try logging out and back in.''
                 else if code e = ''42501'' then
                   ''Permission denied. Please ensure you're logged in.''
                 else ''Failed to submit help request. Please try again.'')] \<and>
           filter is_navigate evs = []) \<and>
        (\<forall>d. backend' q' = Resolved (Response d None) \<longrightarrow>
           filter is_navigate evs = [Navigate ''/request-success'']))"
proof (rule conjI)
  show "(let evs = snd (DonationForm_handleSubmit user fd backend l) in
      Request q \<in> set evs \<longrightarrow>
        (\<forall>d e. backend q = Resolved (Response d (Some e)) \<longrightarrow>
           filter is_toast evs =
             [Toast_error
                (if code e = ''23503'' then
                   ''User profile not found. Please try logging out and back in.''
                 else if code e = ''42501'' then
                   ''Permission denied. Please ensure you're logged in.''
                 else ''Failed to submit donation. Please try again.'')] \<and>
           filter is_navigate evs = []) \<and>
        (\<forall>d. backend q = Resolved (Response d None) \<longrightarrow>
           filter is_navigate evs = [Navigate ''/donation-success'']))"
    unfolding Let_def
  proof (rule impI)
    assume "Request q \<in> set (snd (DonationForm_handleSubmit user fd backend l))"
    then obtain uid where u: "user = Some uid" and c: "DonationForm_complete fd"
      and q: "q = DonationForm_insert uid fd"
      unfolding DonationForm_request_iff by blast
    show "(\<forall>d e. backend q = Resolved (Response d (Some e)) \<longrightarrow>
           filter is_toast (snd (DonationForm_handleSubmit user fd backend l)) =
             [Toast_error
                (if code e = ''23503'' then
                   ''User profile not found. Please try logging out and back in.''
                 else if code e = ''42501'' then
                   ''Permission denied. Please ensure you're logged in.''
                 else ''Failed to submit donation. Please try again.'')] \<and>
           filter is_navigate (snd (DonationForm_handleSubmit user fd backend l)) = []) \<and>
        (\<forall>d. backend q = Resolved (Response d None) \<longrightarrow>
           filter is_navigate (snd (DonationForm_handleSubmit user fd backend l)) =
             [Navigate ''/donation-success''])"
      unfolding u q by (simp add: DonationForm_issued [OF c])
  qed
  show "(let evs = snd (HelpRequestForm_handleSubmit user' fd' backend' l') in
      Request q' \<in> set evs \<longrightarrow>
        (\<forall>d e. backend' q' = Resolved (Response d (Some e)) \<longrightarrow>
           filter is_toast evs =
             [Toast_error
                (if code e = ''23503'' then
                   ''User profile not found. Please try logging out and back in.''
                 else if code e = ''42501'' then
                   ''Permission denied. Please ensure you're logged in.''
                 else ''Failed to submit help request. Please try again.'')] \<and>
           filter is_navigate evs = []) \<and>
        (\<forall>d. backend' q' = Resolved (Response d None) \<longrightarrow>
           filter is_navigate evs = [Navigate ''/request-success'']))"
    unfolding Let_def
  proof (rule impI)
    assume "Request q' \<in> set (snd (HelpRequestForm_handleSubmit user' fd' backend' l'))"
    then obtain uid where u: "user' = Some uid" and c: "HelpRequestForm_complete fd'"
      and q: "q' = HelpRequestForm_insert uid fd'"
      unfolding HelpRequestForm_request_iff by blast
    show "(\<forall>d e. backend' q' = Resolved (Response d (Some e)) \<longrightarrow>
           filter is_toast (snd (HelpRequestForm_handleSubmit user' fd' backend' l')) =
             [Toast_error
                (if code e = ''23503'' then
                   ''User profile not found. Please try logging out and back in.''
                 else if code e = ''42501'' then
                   ''Permission denied. Please ensure you're logged in.''
                 else ''Failed to submit help request. Please try again.'')] \<and>
           filter is_navigate (snd (HelpRequestForm_handleSubmit user' fd' backend' l')) = []) \<and>
        (\<forall>d. backend' q' = Resolved (Response d None) \<longrightarrow>
           filter is_navigate (snd (HelpRequestForm_handleSubmit user' fd' backend' l')) =
             [Navigate ''/request-success''])"
      unfolding u q by (simp add: HelpRequestForm_issued [OF c])
  qed
qed


theorem submit_rejection_message_witness:
  "Request (Insert ''donations''
       [(''user_id'', ''u1''), (''title'', ''Winter coat''), (''description'', ''Warm''),
        (''category'', ''Clothing''), (''location'', ''Pune'')])
     \<in> set (snd (DonationForm_handleSubmit (Some ''u1'')
            \<lparr>FormData.title = '' Winter coat '', FormData.category = ''Clothing'',
             FormData.description = ''Warm'', FormData.location = ''Pune''\<rparr>
            (\<lambda>q. Resolved (Response None (Some \<lparr>code = ''23503'', message = ''fk''\<rparr>)))
            False)) \<and>
   filter is_toast (snd (DonationForm_handleSubmit (Some ''u1'')
            \<lparr>FormData.title = '' Winter coat '', FormData.category = ''Clothing'',
             FormData.description = ''Warm'', FormData.location = ''Pune''\<rparr>
            (\<lambda>q. Resolved (Response None (Some \<lparr>code = ''23503'', message = ''fk''\<rparr>)))
            False)) =
     [Toast_error ''User profile not found. Please try logging out and back in.''] \<and>
   filter is_navigate (snd (DonationForm_handleSubmit (Some ''u1'')
            \<lparr>FormData.title = '' Winter coat '', FormData.category = ''Clothing'',
             FormData.description = ''Warm'', FormData.location = ''Pune''\<rparr>
            (\<lambda>q. Resolved (Response None (Some \<lparr>code = ''23503'', message = ''fk''\<rparr>)))
            False)) = [] \<and>
   Request (Insert ''help_requests''
       [(''user_id'', ''u2''), (''title'', ''Ride''), (''description'', ''To the clinic''),
        (''category'', ''Services''), (''location'', ''Pune''), (''urgency'', ''high'')])
     \<in> set (snd (HelpRequestForm_handleSubmit (Some ''u2'')
            \<lparr>FormData.title = ''Ride'', FormData.category = ''Services'',
             FormData.description = ''To the clinic'', FormData.location = ''Pune'',
             HelpRequestFormData.urgency = ''high''\<rparr>
            (\<lambda>q. Resolved (Response None None)) False)) \<and>
   filter is_navigate (snd (HelpRequestForm_handleSubmit (Some ''u2'')
            \<lparr>FormData.title = ''Ride'', FormData.category = ''Services'',
             FormData.description = ''To the clinic'', FormData.location = ''Pune'',
             HelpRequestFormData.urgency = ''high''\<rparr>
            (\<lambda>q. Resolved (Response None None)) False)) =
     [Navigate ''/request-success'']"
  using submit_rejection_message
    [where user = "Some ''u1''"
       and fd = "\<lparr>FormData.title = '' Winter coat '', FormData.category = ''Clothing'',
             FormData.description = ''Warm'', FormData.location = ''Pune''\<rparr>"
       and backend = "\<lambda>q. Resolved (Response None (Some \<lparr>code = ''23503'', message = ''fk''\<rparr>))"
       and l = False
       and q = "Insert ''donations''
       [(''user_id'', ''u1''), (''title'', ''Winter coat''), (''description'', ''Warm''),
        (''category'', ''Clothing''), (''location'', ''Pune'')]"
       and user' = "Some ''u2''"
       and fd' = "\<lparr>FormData.title = ''Ride'', FormData.category = ''Services'',
             FormData.description = ''To the clinic'', FormData.location = ''Pune'',
             HelpRequestFormData.urgency = ''high''\<rparr>"
       and backend' = "\<lambda>q. Resolved (Response None None)"
       and l' = False
       and q' = "Insert ''help_requests''
       [(''user_id'', ''u2''), (''title'', ''Ride''), (''description'', ''To the clinic''),
        (''category'', ''Services''), (''location'', ''Pune''), (''urgency'', ''high'')]"]
  by (simp add: DonationForm_handleSubmit_def HelpRequestForm_handleSubmit_def
      DonationForm_insert_def HelpRequestForm_insert_def trim_def is_white_def Let_def)

text \<open>
  Claim C4. When a required field of the form is empty after trimming (title, description
  or location empty or white space only, category unselected, and for a help request
  urgency unselected), the submit handler issues no request and shows one error toast,
  which for a signed-in user is the message of the first missing field and nothing else. An
  insert is issued only when every required field is non-empty after trimming, and then the
  title, description and location it sends are the trimmed form values; a signed-in user
  with a complete form issues exactly that one insert.
\<close>

theorem submit_blocked_until_complete:
  "(let evs = snd (DonationForm_handleSubmit user fd backend l) in
      (\<not> DonationForm_complete fd \<longrightarrow>
         filter is_request evs = [] \<and> (\<exists>m. filter is_toast evs = [Toast_error m])) \<and>
      (\<forall>uid. user = Some uid \<and> \<not> DonationForm_complete fd \<longrightarrow>
         evs \<in> {[Toast_error ''Please enter a title''],
                [Toast_error ''Please select a category''],
                [Toast_error ''Please enter a description''],
                [Toast_error ''Please enter a location'']}) \<and>
      (\<forall>t p. Request (Insert t p) \<in> set evs \<longrightarrow>
         DonationForm_complete fd \<and>
         map_of p ''title'' = Some (trim (FormData.title fd)) \<and>
         map_of p ''description'' = Some (trim (FormData.description fd)) \<and>
         map_of p ''location'' = Some (trim (FormData.location fd))) \<and>
      (\<forall>uid. user = Some uid \<and> DonationForm_complete fd \<longrightarrow>
         filter is_request evs = [Request (DonationForm_insert uid fd)])) \<and>
   (let evs = snd (HelpRequestForm_handleSubmit user' fd' backend' l') in
      (\<not> HelpRequestForm_complete fd' \<longrightarrow>
         filter is_request evs = [] \<and> (\<exists>m. filter is_toast evs = [Toast_error m])) \<and>
      (\<forall>uid. user' = Some uid \<and> \<not> HelpRequestForm_complete fd' \<longrightarrow>
         evs \<in> {[Toast_error ''Please enter a title''],
                [Toast_error ''Please select a category''],
                [Toast_error ''Please enter a description''],
                [Toast_error ''Please enter a location''],
                [Toast_error ''Please select an urgency level'']}) \<and>
      (\<forall>t p. Request (Insert t p) \<in> set evs \<longrightarrow>
         HelpRequestForm_complete fd' \<and>
         map_of p ''title'' = Some (trim (FormData.title fd')) \<and>
         map_of p ''description'' = Some (trim (FormData.description fd')) \<and>
         map_of p ''location'' = Some (trim (FormData.location fd'))) \<and>
      (\<forall>uid. user' = Some uid \<and> HelpRequestForm_complete fd' \<longrightarrow>
         filter is_request evs = [Request (HelpRequestForm_insert uid fd')]))"
  (is "?D \<and> ?H")
proof -
  have d1: "\<not> DonationForm_complete fd \<longrightarrow>
      filter is_request (snd (DonationForm_handleSubmit user fd backend l)) = [] \<and>
      (\<exists>m. filter is_toast (snd (DonationForm_handleSubmit user fd backend l)) = [Toast_error m])"
    using DonationForm_blocked_no_request [of fd user backend l] by blast
  have d4: "\<forall>uid. user = Some uid \<and> \<not> DonationForm_complete fd \<longrightarrow>
         snd (DonationForm_handleSubmit user fd backend l) \<in>
               {[Toast_error ''Please enter a title''],
                [Toast_error ''Please select a category''],
                [Toast_error ''Please enter a description''],
                [Toast_error ''Please enter a location'']}"
  proof (intro allI impI)
    fix uid
    assume "user = Some uid \<and> \<not> DonationForm_complete fd"
    then show "snd (DonationForm_handleSubmit user fd backend l) \<in>
               {[Toast_error ''Please enter a title''],
                [Toast_error ''Please select a category''],
                [Toast_error ''Please enter a description''],
                [Toast_error ''Please enter a location'']}"
      using DonationForm_blocked [of fd uid backend l] by simp
  qed
  have d2: "\<forall>t p. Request (Insert t p) \<in> set (snd (DonationForm_handleSubmit user fd backend l)) \<longrightarrow>
         DonationForm_complete fd \<and>
         map_of p ''title'' = Some (trim (FormData.title fd)) \<and>
         map_of p ''description'' = Some (trim (FormData.description fd)) \<and>
         map_of p ''location'' = Some (trim (FormData.location fd))"
    unfolding DonationForm_request_iff by (auto simp: DonationForm_insert_def)
  have d3: "\<forall>uid. user = Some uid \<and> DonationForm_complete fd \<longrightarrow>
         filter is_request (snd (DonationForm_handleSubmit user fd backend l)) =
           [Request (DonationForm_insert uid fd)]"
    by (auto simp: DonationForm_issued split: awaited.splits response.splits option.splits)
  have h1: "\<not> HelpRequestForm_complete fd' \<longrightarrow>
      filter is_request (snd (HelpRequestForm_handleSubmit user' fd' backend' l')) = [] \<and>
      (\<exists>m. filter is_toast (snd (HelpRequestForm_handleSubmit user' fd' backend' l')) = [Toast_error m])"
    using HelpRequestForm_blocked_no_request [of fd' user' backend' l'] by blast
  have h4: "\<forall>uid. user' = Some uid \<and> \<not> HelpRequestForm_complete fd' \<longrightarrow>
         snd (HelpRequestForm_handleSubmit user' fd' backend' l') \<in>
               {[Toast_error ''Please enter a title''],
                [Toast_error ''Please select a category''],
                [Toast_error ''Please enter a description''],
                [Toast_error ''Please enter a location''],
                [Toast_error ''Please select an urgency level'']}"
  proof (intro allI impI)
    fix uid
    assume "user' = Some uid \<and> \<not> HelpRequestForm_complete fd'"
    then show "snd (HelpRequestForm_handleSubmit user' fd' backend' l') \<in>
               {[Toast_error ''Please enter a title''],
                [Toast_error ''Please select a category''],
                [Toast_error ''Please enter a description''],
                [Toast_error ''Please enter a location''],
                [Toast_error ''Please select an urgency level'']}"
      using HelpRequestForm_blocked [of fd' uid backend' l'] by simp
  qed
  have h2: "\<forall>t p. Request (Insert t p) \<in> set (snd (HelpRequestForm_handleSubmit user' fd' backend' l')) \<longrightarrow>
         HelpRequestForm_complete fd' \<and>
         map_of p ''title'' = Some (trim (FormData.title fd')) \<and>
         map_of p ''description'' = Some (trim (FormData.description fd')) \<and>
         map_of p ''location'' = Some (trim (FormData.location fd'))"
    unfolding HelpRequestForm_request_iff by (auto simp: HelpRequestForm_insert_def)
  have h3: "\<forall>uid. user' = Some uid \<and> HelpRequestForm_complete fd' \<longrightarrow>
         filter is_request (snd (HelpRequestForm_handleSubmit user' fd' backend' l')) =
           [Request (HelpRequestForm_insert uid fd')]"
    by (auto simp: HelpRequestForm_issued split: awaited.splits response.splits option.splits)
  from d1 d4 d2 d3 have d: "?D" unfolding Let_def by (intro conjI)
  from h1 h4 h2 h3 have h: "?H" unfolding Let_def by (intro conjI)
  from d h show ?thesis by (rule conjI)
qed

theorem submit_blocked_until_complete_witness:
  "\<not> DonationForm_complete
       \<lparr>FormData.title = ''   '', FormData.category = ''Food'',
        FormData.description = ''Rice'', FormData.location = ''Pune''\<rparr> \<and>
   snd (DonationForm_handleSubmit (Some ''u1'')
          \<lparr>FormData.title = ''   '', FormData.category = ''Food'',
           FormData.description = ''Rice'', FormData.location = ''Pune''\<rparr>
          (\<lambda>q. Resolved (Response None None)) False) =
     [Toast_error ''Please enter a title''] \<and>
   HelpRequestForm_complete
       \<lparr>FormData.title = '' Ride '', FormData.category = ''Services'',
        FormData.description = ''To the clinic '', FormData.location = ''Pune'',
        HelpRequestFormData.urgency = ''high''\<rparr> \<and>
   filter is_request (snd (HelpRequestForm_handleSubmit (Some ''u2'')
          \<lparr>FormData.title = '' Ride '', FormData.category = ''Services'',
           FormData.description = ''To the clinic '', FormData.location = ''Pune'',
           HelpRequestFormData.urgency = ''high''\<rparr>
          (\<lambda>q. Resolved (Response None None)) False)) =
     [Request (Insert ''help_requests''
        [(''user_id'', ''u2''), (''title'', ''Ride''), (''description'', ''To the clinic''),
         (''category'', ''Services''), (''location'', ''Pune''), (''urgency'', ''high'')])]"
  using submit_blocked_until_complete
    [where user = "Some ''u1''"
       and fd = "\<lparr>FormData.title = ''   '', FormData.category = ''Food'',
           FormData.description = ''Rice'', FormData.location = ''Pune''\<rparr>"
       and backend = "\<lambda>q. Resolved (Response None None)"
       and l = False
       and user' = "Some ''u2''"
       and fd' = "\<lparr>FormData.title = '' Ride '', FormData.category = ''Services'',
           FormData.description = ''To the clinic '', FormData.location = ''Pune'',
           HelpRequestFormData.urgency = ''high''\<rparr>"
       and backend' = "\<lambda>q. Resolved (Response None None)"
       and l' = False]
  by (simp add: DonationForm_handleSubmit_def HelpRequestForm_handleSubmit_def
      DonationForm_complete_def HelpRequestForm_complete_def
      DonationForm_insert_def HelpRequestForm_insert_def trim_def is_white_def Let_def)

section \<open>Properties of the profile page\<close>

text \<open>The outcome of a delete, by the answer of the backend.\<close>

lemma handleDeleteDonation_ok:
  assumes "backend (Delete_eq ''donations'' ''id'' i) = Resolved (Response d None)"
  shows "handleDeleteDonation backend i captured st =
     (st\<lparr>ProfileState.donations := filter (\<lambda>d. Listing.id' d \<noteq> i) captured\<rparr>,
      [Request (Delete_eq ''donations'' ''id'' i),
       Toast_success ''Donation deleted successfully''])"
  using assms by (simp add: handleDeleteDonation_def Let_def)

lemma handleDeleteRequest_ok:
  assumes "backend (Delete_eq ''help_requests'' ''id'' i) = Resolved (Response d None)"
  shows "handleDeleteRequest backend i captured st =
     (st\<lparr>ProfileState.requests := filter (\<lambda>r. Listing.id' r \<noteq> i) captured\<rparr>,
      [Request (Delete_eq ''help_requests'' ''id'' i),
       Toast_success ''Request deleted successfully''])"
  using assms by (simp add: handleDeleteRequest_def Let_def)





text \<open>
  A delete answered without error stores the captured array without the items of the
  deleted id, leaves the other list alone and issues no request but the delete. When the
  captured array is still the list the page holds, that is the list without exactly the
  deleted items, the others unchanged and in their places.
\<close>

lemma delete_success_of_captured_list:
  "(backend (Delete_eq ''donations'' ''id'' i) = Resolved (Response d None) \<longrightarrow>
      (let (st', evs) = handleDeleteDonation backend i captured st in
         ProfileState.donations st' = filter (\<lambda>x. Listing.id' x \<noteq> i) captured \<and>
         ProfileState.requests st' = ProfileState.requests st \<and>
         filter is_request evs = [Request (Delete_eq ''donations'' ''id'' i)])) \<and>
   (backend' (Delete_eq ''help_requests'' ''id'' i') = Resolved (Response d' None) \<longrightarrow>
      (let (st', evs) = handleDeleteRequest backend' i' captured' st0 in
         ProfileState.requests st' = filter (\<lambda>x. Listing.id' x \<noteq> i') captured' \<and>
         ProfileState.donations st' = ProfileState.donations st0 \<and>
         filter is_request evs = [Request (Delete_eq ''help_requests'' ''id'' i')]))"
  by (simp add: handleDeleteDonation_ok handleDeleteRequest_ok)

lemma delete_success_of_current_list:
  "(backend (Delete_eq ''donations'' ''id'' i) = Resolved (Response d None) \<longrightarrow>
      (let (st', evs) = handleDeleteDonation backend i (ProfileState.donations st) st in
         set (ProfileState.donations st') =
           {x \<in> set (ProfileState.donations st). Listing.id' x \<noteq> i} \<and>
         subseq (ProfileState.donations st') (ProfileState.donations st))) \<and>
   (backend' (Delete_eq ''help_requests'' ''id'' i') = Resolved (Response d' None) \<longrightarrow>
      (let (st', evs) = handleDeleteRequest backend' i' (ProfileState.requests st0) st0 in
         set (ProfileState.requests st') =
           {x \<in> set (ProfileState.requests st0). Listing.id' x \<noteq> i'} \<and>
         subseq (ProfileState.requests st') (ProfileState.requests st0)))"
  by (simp add: handleDeleteDonation_ok handleDeleteRequest_ok)

text \<open>
  Claim C5. A delete that succeeds should remove from the list the page holds exactly the
  items of the deleted id and leave every other item as it is. The handlers do not do so
  for every list state: they filter the array their render captured, not the list the page
  holds when the answer arrives. The page shows d1 and d2 (and r1 and r2); the user deletes
  d1 and then d2 before the first answer is back, so both handlers captured the list with
  both items. Both deletes are answered without error. The first answer leaves d2; the
  second stores the captured list without d2 over it, which is d1: the item deleted first is
  in the list again, where removing d2 from the list held then leaves nothing. The same
  happens to the help requests.
\<close>

theorem delete_in_flight_restores_item:
  "ProfileState.donations
     (fst (handleDeleteDonation (\<lambda>q. Resolved (Response None None)) ''d1''
       [\<lparr>id' = ''d1'', title = ''Coat'', description = None, category = ''Clothing'',
            created_at = ''2025-01-02''\<rparr>,
           \<lparr>id' = ''d2'', title = ''Rice'', description = Some ''5 kg'', category = ''Food'',
            created_at = ''2025-01-01''\<rparr>]
       \<lparr>loading = False, error = None,
        ProfileState.donations =
          [\<lparr>id' = ''d1'', title = ''Coat'', description = None, category = ''Clothing'',
            created_at = ''2025-01-02''\<rparr>,
           \<lparr>id' = ''d2'', title = ''Rice'', description = Some ''5 kg'', category = ''Food'',
            created_at = ''2025-01-01''\<rparr>],
        ProfileState.requests =
          [\<lparr>id' = ''r1'', title = ''Ride'', description = None, category = ''Services'',
            created_at = ''2025-01-03'', MyHelpRequest.urgency = ''high''\<rparr>,
           \<lparr>id' = ''r2'', title = ''Books'', description = None, category = ''Education'',
            created_at = ''2025-01-04'', MyHelpRequest.urgency = ''low''\<rparr>]\<rparr>)) =
     [\<lparr>id' = ''d2'', title = ''Rice'', description = Some ''5 kg'', category = ''Food'',
            created_at = ''2025-01-01''\<rparr>] \<and>
   ProfileState.donations
     (fst (handleDeleteDonation (\<lambda>q. Resolved (Response None None)) ''d2''
       [\<lparr>id' = ''d1'', title = ''Coat'', description = None, category = ''Clothing'',
            created_at = ''2025-01-02''\<rparr>,
           \<lparr>id' = ''d2'', title = ''Rice'', description = Some ''5 kg'', category = ''Food'',
            created_at = ''2025-01-01''\<rparr>]
       (fst (handleDeleteDonation (\<lambda>q. Resolved (Response None None)) ''d1''
          [\<lparr>id' = ''d1'', title = ''Coat'', description = None, category = ''Clothing'',
            created_at = ''2025-01-02''\<rparr>,
           \<lparr>id' = ''d2'', title = ''Rice'', description = Some ''5 kg'', category = ''Food'',
            created_at = ''2025-01-01''\<rparr>]
          \<lparr>loading = False, error = None,
        ProfileState.donations =
          [\<lparr>id' = ''d1'', title = ''Coat'', description = None, category = ''Clothing'',
            created_at = ''2025-01-02''\<rparr>,
           \<lparr>id' = ''d2'', title = ''Rice'', description = Some ''5 kg'', category = ''Food'',
            created_at = ''2025-01-01''\<rparr>],
        ProfileState.requests =
          [\<lparr>id' = ''r1'', title = ''Ride'', description = None, category = ''Services'',
            created_at = ''2025-01-03'', MyHelpRequest.urgency = ''high''\<rparr>,
           \<lparr>id' = ''r2'', title = ''Books'', description = None, category = ''Education'',
            created_at = ''2025-01-04'', MyHelpRequest.urgency = ''low''\<rparr>]\<rparr>)))) =
     [\<lparr>id' = ''d1'', title = ''Coat'', description = None, category = ''Clothing'',
            created_at = ''2025-01-02''\<rparr>] \<and>
   filter (\<lambda>x. Listing.id' x \<noteq> ''d2'')
     (ProfileState.donations
       (fst (handleDeleteDonation (\<lambda>q. Resolved (Response None None)) ''d1''
          [\<lparr>id' = ''d1'', title = ''Coat'', description = None, category = ''Clothing'',
            created_at = ''2025-01-02''\<rparr>,
           \<lparr>id' = ''d2'', title = ''Rice'', description = Some ''5 kg'', category = ''Food'',
            created_at = ''2025-01-01''\<rparr>]
          \<lparr>loading = False, error = None,
        ProfileState.donations =
          [\<lparr>id' = ''d1'', title = ''Coat'', description = None, category = ''Clothing'',
            created_at = ''2025-01-02''\<rparr>,
           \<lparr>id' = ''d2'', title = ''Rice'', description = Some ''5 kg'', category = ''Food'',
            created_at = ''2025-01-01''\<rparr>],
        ProfileState.requests =
          [\<lparr>id' = ''r1'', title = ''Ride'', description = None, category = ''Services'',
            created_at = ''2025-01-03'', MyHelpRequest.urgency = ''high''\<rparr>,
           \<lparr>id' = ''r2'', title = ''Books'', description = None, category = ''Education'',
            created_at = ''2025-01-04'', MyHelpRequest.urgency = ''low''\<rparr>]\<rparr>))) = [] \<and>
   ProfileState.requests
     (fst (handleDeleteRequest (\<lambda>q. Resolved (Response None None)) ''r2''
       [\<lparr>id' = ''r1'', title = ''Ride'', description = None, category = ''Services'',
            created_at = ''2025-01-03'', MyHelpRequest.urgency = ''high''\<rparr>,
           \<lparr>id' = ''r2'', title = ''Books'', description = None, category = ''Education'',
            created_at = ''2025-01-04'', MyHelpRequest.urgency = ''low''\<rparr>]
       (fst (handleDeleteRequest (\<lambda>q. Resolved (Response None None)) ''r1''
          [\<lparr>id' = ''r1'', title = ''Ride'', description = None, category = ''Services'',
            created_at = ''2025-01-03'', MyHelpRequest.urgency = ''high''\<rparr>,
           \<lparr>id' = ''r2'', title = ''Books'', description = None, category = ''Education'',
            created_at = ''2025-01-04'', MyHelpRequest.urgency = ''low''\<rparr>]
          \<lparr>loading = False, error = None,
        ProfileState.donations =
          [\<lparr>id' = ''d1'', title = ''Coat'', description = None, category = ''Clothing'',
            created_at = ''2025-01-02''\<rparr>,
           \<lparr>id' = ''d2'', title = ''Rice'', description = Some ''5 kg'', category = ''Food'',
            created_at = ''2025-01-01''\<rparr>],
        ProfileState.requests =
          [\<lparr>id' = ''r1'', title = ''Ride'', description = None, category = ''Services'',
            created_at = ''2025-01-03'', MyHelpRequest.urgency = ''high''\<rparr>,
           \<lparr>id' = ''r2'', title = ''Books'', description = None, category = ''Education'',
            created_at = ''2025-01-04'', MyHelpRequest.urgency = ''low''\<rparr>]\<rparr>)))) =
     [\<lparr>id' = ''r1'', title = ''Ride'', description = None, category = ''Services'',
            created_at = ''2025-01-03'', MyHelpRequest.urgency = ''high''\<rparr>]"
  by (simp add: handleDeleteDonation_def handleDeleteRequest_def Let_def)



text \<open>The outcome of \<^verbatim>\<open>fetchUserData\<close>, by the answers of the two queries.\<close>

lemma fetchUserData_both_ok:
  assumes "donationsBackend
             (Select_eq ''donations'' ''id, title, description, category, created_at''
                ''user_id'' uid) = Resolved (Response dd None)"
    and "requestsBackend
             (Select_eq ''help_requests''
                ''id, title, description, category, urgency, created_at''
                ''user_id'' uid) = Resolved (Response rd None)"
  shows "fetchUserData (Some uid) donationsBackend requestsBackend st =
     (st\<lparr>error := None,
         ProfileState.donations := or_empty dd,
         ProfileState.requests := or_empty rd,
         loading := False\<rparr>,
      [Request (Select_eq ''donations'' ''id, title, description, category, created_at''
                ''user_id'' uid),
       Request (Select_eq ''help_requests''
                ''id, title, description, category, urgency, created_at''
                ''user_id'' uid)])"
  using assms by (simp add: fetchUserData_def Let_def)

lemma fetchUserData_not_both_ok:
  assumes "\<not> (\<exists>dd rd.
       donationsBackend
             (Select_eq ''donations'' ''id, title, description, category, created_at''
                ''user_id'' uid) = Resolved (Response dd None) \<and>
       requestsBackend
             (Select_eq ''help_requests''
                ''id, title, description, category, urgency, created_at''
                ''user_id'' uid) = Resolved (Response rd None))"
  shows "fst (fetchUserData (Some uid) donationsBackend requestsBackend st) =
           fetchUserData_failed st"
proof (cases "donationsBackend
             (Select_eq ''donations'' ''id, title, description, category, created_at''
                ''user_id'' uid)")
  case Threw
  then show ?thesis by (simp add: fetchUserData_def Let_def)
next
  case (Resolved r)
  obtain dd de where r: "r = Response dd de" by (cases r)
  show ?thesis
  proof (cases "requestsBackend
             (Select_eq ''help_requests''
                ''id, title, description, category, urgency, created_at''
                ''user_id'' uid)")
    case Threw
    then show ?thesis using Resolved r by (simp add: fetchUserData_def Let_def)
  next
    case Resolved': (Resolved r')
    obtain rd re where r': "r' = Response rd re" by (cases r')
    from assms Resolved Resolved' r r' have "de \<noteq> None \<or> re \<noteq> None" by simp
    then show ?thesis using Resolved Resolved' r r'
      by (cases de; cases re) (simp_all add: fetchUserData_def Let_def)
  qed
qed

lemma fetchUserData_requests:
  "filter is_request (snd (fetchUserData (Some uid) donationsBackend requestsBackend st)) =
      [Request (Select_eq ''donations'' ''id, title, description, category, created_at''
                ''user_id'' uid),
       Request (Select_eq ''help_requests''
                ''id, title, description, category, urgency, created_at''
                ''user_id'' uid)]"
  by (simp add: fetchUserData_def Let_def split: awaited.splits response.splits)

text \<open>
  Claim C6. The profile page issues the donations query and the help-requests query
  together, whatever either of them answers, and joins them all-or-nothing: when either
  query answers with an error, neither list is updated and the error state is set; both
  lists are updated when both queries succeed, and only then.
\<close>

theorem fetchUserData_all_or_nothing:
  "(let q1 = Select_eq ''donations'' ''id, title, description, category, created_at''
               ''user_id'' uid;
        q2 = Select_eq ''help_requests''
               ''id, title, description, category, urgency, created_at'' ''user_id'' uid;
        (st', evs) = fetchUserData (Some uid) donationsBackend requestsBackend st
    in filter is_request evs = [Request q1, Request q2] \<and>
       ((\<exists>dd e. donationsBackend q1 = Resolved (Response dd (Some e))) \<or>
        (\<exists>rd e. requestsBackend q2 = Resolved (Response rd (Some e))) \<longrightarrow>
          ProfileState.donations st' = ProfileState.donations st \<and>
          ProfileState.requests st' = ProfileState.requests st \<and>
          error st' = Some ''Failed to load your data. Please try refreshing the page.'' \<and>
          loading st' = False) \<and>
       (\<forall>dd rd. donationsBackend q1 = Resolved (Response dd None) \<and>
                requestsBackend q2 = Resolved (Response rd None) \<longrightarrow>
          ProfileState.donations st' = or_empty dd \<and>
          ProfileState.requests st' = or_empty rd \<and>
          error st' = None \<and> loading st' = False) \<and>
       (\<not> (\<exists>dd rd. donationsBackend q1 = Resolved (Response dd None) \<and>
                requestsBackend q2 = Resolved (Response rd None)) \<longrightarrow>
          ProfileState.donations st' = ProfileState.donations st \<and>
          ProfileState.requests st' = ProfileState.requests st))"
proof -
  define q1 where "q1 = Select_eq ''donations'' ''id, title, description, category, created_at''
               ''user_id'' uid"
  define q2 where "q2 = Select_eq ''help_requests''
               ''id, title, description, category, urgency, created_at'' ''user_id'' uid"
  define res where "res = fetchUserData (Some uid) donationsBackend requestsBackend st"
  have a: "filter is_request (snd res) = [Request q1, Request q2]"
    unfolding res_def q1_def q2_def by (rule fetchUserData_requests)
  have n: "\<not> (\<exists>dd rd. donationsBackend q1 = Resolved (Response dd None) \<and>
                requestsBackend q2 = Resolved (Response rd None)) \<Longrightarrow>
          fst res = fetchUserData_failed st"
    unfolding res_def q1_def q2_def by (rule fetchUserData_not_both_ok)
  have b: "(\<exists>dd e. donationsBackend q1 = Resolved (Response dd (Some e))) \<or>
        (\<exists>rd e. requestsBackend q2 = Resolved (Response rd (Some e))) \<Longrightarrow>
          fst res = fetchUserData_failed st"
    by (rule n) auto
  have c: "donationsBackend q1 = Resolved (Response dd None) \<Longrightarrow>
           requestsBackend q2 = Resolved (Response rd None) \<Longrightarrow>
           fst res = st\<lparr>error := None,
         ProfileState.donations := or_empty dd,
         ProfileState.requests := or_empty rd,
         loading := False\<rparr>" for dd rd
    unfolding res_def q1_def q2_def by (simp add: fetchUserData_both_ok)
  have "filter is_request (snd res) = [Request q1, Request q2] \<and>
       ((\<exists>dd e. donationsBackend q1 = Resolved (Response dd (Some e))) \<or>
        (\<exists>rd e. requestsBackend q2 = Resolved (Response rd (Some e))) \<longrightarrow>
          ProfileState.donations (fst res) = ProfileState.donations st \<and>
          ProfileState.requests (fst res) = ProfileState.requests st \<and>
          error (fst res) = Some ''Failed to load your data. Please try refreshing the page.'' \<and>
          loading (fst res) = False) \<and>
       (\<forall>dd rd. donationsBackend q1 = Resolved (Response dd None) \<and>
                requestsBackend q2 = Resolved (Response rd None) \<longrightarrow>
          ProfileState.donations (fst res) = or_empty dd \<and>
          ProfileState.requests (fst res) = or_empty rd \<and>
          error (fst res) = None \<and> loading (fst res) = False) \<and>
       (\<not> (\<exists>dd rd. donationsBackend q1 = Resolved (Response dd None) \<and>
                requestsBackend q2 = Resolved (Response rd None)) \<longrightarrow>
          ProfileState.donations (fst res) = ProfileState.donations st \<and>
          ProfileState.requests (fst res) = ProfileState.requests st)"
    using a b c n by (simp add: fetchUserData_failed_def)
  then show ?thesis
    unfolding Let_def q1_def q2_def res_def by (simp add: case_prod_beta)
qed

theorem fetchUserData_all_or_nothing_witness:
  "fetchUserData (Some ''u1'')
     (\<lambda>q. Resolved (Response None (Some \<lparr>code = ''42501'', message = ''row-level security''\<rparr>)))
     (\<lambda>q. Resolved (Response (Some []) None))
     \<lparr>loading = False, error = None,
        ProfileState.donations =
          [\<lparr>id' = ''d1'', title = ''Coat'', description = None, category = ''Clothing'',
            created_at = ''2025-01-02''\<rparr>,
           \<lparr>id' = ''d2'', title = ''Rice'', description = Some ''5 kg'', category = ''Food'',
            created_at = ''2025-01-01''\<rparr>],
        ProfileState.requests =
          [\<lparr>id' = ''r1'', title = ''Ride'', description = None, category = ''Services'',
            created_at = ''2025-01-03'', MyHelpRequest.urgency = ''high''\<rparr>]\<rparr> =
   (\<lparr>loading = False, error = None,
        ProfileState.donations =
          [\<lparr>id' = ''d1'', title = ''Coat'', description = None, category = ''Clothing'',
            created_at = ''2025-01-02''\<rparr>,
           \<lparr>id' = ''d2'', title = ''Rice'', description = Some ''5 kg'', category = ''Food'',
            created_at = ''2025-01-01''\<rparr>],
        ProfileState.requests =
          [\<lparr>id' = ''r1'', title = ''Ride'', description = None, category = ''Services'',
            created_at = ''2025-01-03'', MyHelpRequest.urgency = ''high''\<rparr>]\<rparr>
      \<lparr>error := Some ''Failed to load your data. Please try refreshing the page.''\<rparr>,
    [Request (Select_eq ''donations'' ''id, title, description, category, created_at''
                ''user_id'' ''u1''),
     Request (Select_eq ''help_requests''
                ''id, title, description, category, urgency, created_at'' ''user_id'' ''u1''),
     Console_error ''Donations fetch error:'',
     Console_error ''Profile data fetch error:'']) \<and>
   fst (fetchUserData (Some ''u1'')
     (\<lambda>q. Resolved (Response (Some [\<lparr>id' = ''d2'', title = ''Rice'', description = Some ''5 kg'', category = ''Food'',
            created_at = ''2025-01-01''\<rparr>]) None))
     (\<lambda>q. Resolved (Response None None))
     \<lparr>loading = False, error = None,
        ProfileState.donations =
          [\<lparr>id' = ''d1'', title = ''Coat'', description = None, category = ''Clothing'',
            created_at = ''2025-01-02''\<rparr>,
           \<lparr>id' = ''d2'', title = ''Rice'', description = Some ''5 kg'', category = ''Food'',
            created_at = ''2025-01-01''\<rparr>],
        ProfileState.requests =
          [\<lparr>id' = ''r1'', title = ''Ride'', description = None, category = ''Services'',
            created_at = ''2025-01-03'', MyHelpRequest.urgency = ''high''\<rparr>]\<rparr>) =
   \<lparr>loading = False, error = None,
    ProfileState.donations = [\<lparr>id' = ''d2'', title = ''Rice'', description = Some ''5 kg'', category = ''Food'',
            created_at = ''2025-01-01''\<rparr>],
    ProfileState.requests = []\<rparr>"
  using fetchUserData_all_or_nothing
    [where uid = "''u1''"
       and donationsBackend = "\<lambda>q. Resolved (Response None (Some \<lparr>code = ''42501'', message = ''row-level security''\<rparr>))"
       and requestsBackend = "\<lambda>q. Resolved (Response (Some []) None)"
       and st = "\<lparr>loading = False, error = None,
        ProfileState.donations =
          [\<lparr>id' = ''d1'', title = ''Coat'', description = None, category = ''Clothing'',
            created_at = ''2025-01-02''\<rparr>,
           \<lparr>id' = ''d2'', title = ''Rice'', description = Some ''5 kg'', category = ''Food'',
            created_at = ''2025-01-01''\<rparr>],
        ProfileState.requests =
          [\<lparr>id' = ''r1'', title = ''Ride'', description = None, category = ''Services'',
            created_at = ''2025-01-03'', MyHelpRequest.urgency = ''high''\<rparr>]\<rparr>"]
    fetchUserData_all_or_nothing
    [where uid = "''u1''"
       and donationsBackend = "\<lambda>q. Resolved (Response (Some [\<lparr>id' = ''d2'', title = ''Rice'', description = Some ''5 kg'', category = ''Food'',
            created_at = ''2025-01-01''\<rparr>]) None)"
       and requestsBackend = "\<lambda>q. Resolved (Response None None)"
       and st = "\<lparr>loading = False, error = None,
        ProfileState.donations =
          [\<lparr>id' = ''d1'', title = ''Coat'', description = None, category = ''Clothing'',
            created_at = ''2025-01-02''\<rparr>,
           \<lparr>id' = ''d2'', title = ''Rice'', description = Some ''5 kg'', category = ''Food'',
            created_at = ''2025-01-01''\<rparr>],
        ProfileState.requests =
          [\<lparr>id' = ''r1'', title = ''Ride'', description = None, category = ''Services'',
            created_at = ''2025-01-03'', MyHelpRequest.urgency = ''high''\<rparr>]\<rparr>"]
  by (simp add: fetchUserData_def fetchUserData_failed_def or_empty_def Let_def)

section \<open>Properties of the listing pages\<close>

text \<open>The distinct user ids, the substring test, and the profile lookup.\<close>

lemma set_fold_Set_add: "set (fold Set_add xs acc) = set acc \<union> set xs"
  by (induction xs arbitrary: acc) (auto simp: Set_add_def)

lemma distinct_fold_Set_add: "distinct acc \<Longrightarrow> distinct (fold Set_add xs acc)"
  by (induction xs arbitrary: acc) (auto simp: Set_add_def)

lemma set_spread_Set: "set (spread_Set xs) = set xs"
  by (simp add: spread_Set_def set_fold_Set_add)

lemma distinct_spread_Set: "distinct (spread_Set xs)"
  by (simp add: spread_Set_def distinct_fold_Set_add)

lemma spread_Set_empty_iff: "spread_Set xs = [] \<longleftrightarrow> xs = []"
  using set_spread_Set [of xs] by (metis set_empty)

lemma js_includes_iff_sublist: "js_includes s q \<longleftrightarrow> sublist q s"
proof (induction s)
  case Nil
  then show ?case by simp
next
  case (Cons c s)
  have "prefix q (c # s) \<longleftrightarrow> take (length q) (c # s) = q"
    by (metis prefix_def append_eq_conv_conj append_take_drop_id)
  then show ?case using Cons by (auto simp: sublist_Cons_right)
qed

lemma fold_profileMap_set_other:
  "\<forall>p \<in> set ps. Profile.id' p \<noteq> k \<Longrightarrow> fold profileMap_set ps m k = m k"
  by (induction ps arbitrary: m) (auto simp: profileMap_set_def)

lemma fold_profileMap_set_last:
  assumes "\<forall>q \<in> set ps2. Profile.id' q \<noteq> Profile.id' p"
  shows "fold profileMap_set (ps1 @ p # ps2) m (Profile.id' p) =
           Some (or_else (full_name p) ''Anonymous'')"
  using assms by (simp add: fold_profileMap_set_other) (simp add: profileMap_set_def)

lemma or_else_nonempty: "d \<noteq> [] \<Longrightarrow> or_else v d \<noteq> []"
  by (simp add: or_else_def split: option.splits)

lemma fold_profileMap_set_nonempty:
  "\<forall>k n. m k = Some n \<longrightarrow> n \<noteq> [] \<Longrightarrow> fold profileMap_set ps m k = Some n \<Longrightarrow> n \<noteq> []"
proof (induction ps arbitrary: m)
  case Nil
  then show ?case by simp
next
  case (Cons p ps)
  have "\<forall>k n. profileMap_set p m k = Some n \<longrightarrow> n \<noteq> []"
    using Cons.prems(1) by (auto simp: profileMap_set_def or_else_nonempty)
  then show ?case using Cons.IH [of "profileMap_set p m"] Cons.prems(2) by simp
qed

lemma fold_profileMap_set_absent:
  "\<forall>p \<in> set ps. Profile.id' p = k \<longrightarrow> full_name p = None \<Longrightarrow>
     or_else (fold profileMap_set ps Map.empty k) ''Anonymous'' = ''Anonymous''"
proof (induction ps rule: rev_induct)
  case Nil
  then show ?case by (simp add: or_else_def)
next
  case (snoc p ps)
  then show ?case by (cases "Profile.id' p = k") (simp_all add: profileMap_set_def or_else_def)
qed

lemma fetchProfileMap_requests:
  "filter is_request (fst (fetchProfileMap backend userIds)) =
     (if userIds = [] then []
      else [Request (Select_in ''profiles'' ''id, full_name'' ''id'' userIds)])"
  by (simp add: fetchProfileMap_def Let_def
      split: awaited.splits response.splits option.splits)

lemma fetchProfileMap_toasts: "filter is_toast (fst (fetchProfileMap backend userIds)) = []"
  by (simp add: fetchProfileMap_def Let_def
      split: awaited.splits response.splits option.splits)

lemma fetchProfileMap_ok:
  assumes "userIds = [] \<or>
     backend (Select_in ''profiles'' ''id, full_name'' ''id'' userIds) =
       Resolved (Response pd None)"
  shows "\<exists>evs pm. fetchProfileMap backend userIds = (evs, Some pm) \<and>
     (\<forall>k. or_else (pm k) ''Anonymous'' =
            or_else (fold profileMap_set (or_empty pd) Map.empty k) ''Anonymous'' \<or>
          userIds = [])"
  using assms by (auto simp: fetchProfileMap_def Let_def)

lemma fetchProfileMap_error:
  assumes "backend (Select_in ''profiles'' ''id, full_name'' ''id'' userIds) =
       Resolved (Response pd (Some e))"
  shows "\<exists>evs. fetchProfileMap backend userIds = (evs, Some Map.empty)"
  using assms by (simp add: fetchProfileMap_def Let_def)

lemma fetchProfileMap_thrown_iff:
  "snd (fetchProfileMap backend userIds) = None \<longleftrightarrow>
     userIds \<noteq> [] \<and>
     backend (Select_in ''profiles'' ''id, full_name'' ''id'' userIds) = Threw"
  by (simp add: fetchProfileMap_def Let_def
      split: awaited.splits response.splits option.splits)


lemma or_else_idem: "or_else (Some (or_else v d)) d = or_else v d"
  by (simp add: or_else_def split: option.splits)


lemma HelpRequest_truncate_extend:
  "HelpRequest.truncate (HelpRequest.extend (r :: HelpRequest) m) = r"
  by (simp add: HelpRequest.defs)

lemma Donation_truncate_extend:
  "Donation.truncate (Donation.extend (d :: Donation) m) = d"
  by (simp add: Donation.defs)

lemma HelpRequest_userName_extend:
  "HelpRequestWithName.userName (HelpRequest.extend r (HelpRequestWithName.fields n)) = n"
  by (simp add: HelpRequest.defs HelpRequestWithName.defs)

lemma Donation_userName_extend:
  "DonationWithName.userName (Donation.extend d (DonationWithName.fields n)) = n"
  by (simp add: Donation.defs DonationWithName.defs)

text \<open>The outcome of a fetch, by the answers of the two queries.\<close>

lemma fetchRequests_rows_ok:
  assumes "backend (Select_eq ''help_requests'' ''*'' ''status'' ''open'') =
             Resolved (Response rd None)"
    and "fetchProfileMap profiles (spread_Set (map user_id (or_empty rd))) = (evs, Some pm)"
  shows "fetchRequests backend profiles st =
     (st\<lparr>error := None,
         HelpRequestsState.requests :=
           map (\<lambda>r. HelpRequest.extend r
                  (HelpRequestWithName.fields (or_else (pm (user_id r)) ''Anonymous'')))
             (or_empty rd),
         loading := False\<rparr>,
      Request (Select_eq ''help_requests'' ''*'' ''status'' ''open'') # evs)"
  using assms by (simp add: fetchRequests_def fetchRequests_try_def Let_def)

lemma fetchRequests_rows_ok_thrown:
  assumes "backend (Select_eq ''help_requests'' ''*'' ''status'' ''open'') =
             Resolved (Response rd None)"
    and "fetchProfileMap profiles (spread_Set (map user_id (or_empty rd))) = (evs, None)"
  shows "fetchRequests backend profiles st =
     (st\<lparr>error := Some ''Failed to load help requests. Please try again.'', loading := False\<rparr>,
      Request (Select_eq ''help_requests'' ''*'' ''status'' ''open'') # evs @
        [Console_error ''Fetch error:''])"
  using assms by (simp add: fetchRequests_def fetchRequests_try_def Let_def)

lemma fetchRequests_rows_failed:
  assumes "\<forall>rd. backend (Select_eq ''help_requests'' ''*'' ''status'' ''open'') \<noteq>
             Resolved (Response rd None)"
  shows "fst (fetchRequests backend profiles st) =
     st\<lparr>error := Some ''Failed to load help requests. Please try again.'', loading := False\<rparr>"
  using assms
  by (simp add: fetchRequests_def fetchRequests_try_def Let_def
      split: awaited.splits response.splits option.splits)

lemma fetchDonations_rows_ok:
  assumes "backend (Select_eq ''donations'' ''*'' ''status'' ''available'') =
             Resolved (Response rd None)"
    and "fetchProfileMap profiles (spread_Set (map user_id (or_empty rd))) = (evs, Some pm)"
  shows "fetchDonations backend profiles st =
     (st\<lparr>error := None,
         DonationsState.donations :=
           map (\<lambda>r. Donation.extend r
                  (DonationWithName.fields (or_else (pm (user_id r)) ''Anonymous'')))
             (or_empty rd),
         loading := False\<rparr>,
      Request (Select_eq ''donations'' ''*'' ''status'' ''available'') # evs)"
  using assms by (simp add: fetchDonations_def fetchDonations_try_def Let_def)

lemma fetchDonations_rows_ok_thrown:
  assumes "backend (Select_eq ''donations'' ''*'' ''status'' ''available'') =
             Resolved (Response rd None)"
    and "fetchProfileMap profiles (spread_Set (map user_id (or_empty rd))) = (evs, None)"
  shows "fetchDonations backend profiles st =
     (st\<lparr>error := Some ''Failed to load donations. Please try again.'', loading := False\<rparr>,
      Request (Select_eq ''donations'' ''*'' ''status'' ''available'') # evs @
        [Console_error ''Fetch error:''])"
  using assms by (simp add: fetchDonations_def fetchDonations_try_def Let_def)

lemma fetchDonations_rows_failed:
  assumes "\<forall>rd. backend (Select_eq ''donations'' ''*'' ''status'' ''available'') \<noteq>
             Resolved (Response rd None)"
  shows "fst (fetchDonations backend profiles st) =
     st\<lparr>error := Some ''Failed to load donations. Please try again.'', loading := False\<rparr>"
  using assms
  by (simp add: fetchDonations_def fetchDonations_try_def Let_def
      split: awaited.splits response.splits option.splits)

lemma fetchRequests_named:
  assumes "backend (Select_eq ''help_requests'' ''*'' ''status'' ''open'') =
             Resolved (Response rd None)"
    and "profiles (Select_in ''profiles'' ''id, full_name'' ''id''
                     (spread_Set (map user_id (or_empty rd)))) =
             Resolved (Response pd None)"
  shows "HelpRequestsState.requests (fst (fetchRequests backend profiles st)) =
     map (\<lambda>r. HelpRequest.extend r
            (HelpRequestWithName.fields
               (or_else (fold profileMap_set (or_empty pd) Map.empty (user_id r))
                  ''Anonymous'')))
       (or_empty rd)"
proof -
  from fetchProfileMap_ok [of "spread_Set (map user_id (or_empty rd))" profiles pd] assms(2)
  obtain evs pm where f: "fetchProfileMap profiles (spread_Set (map user_id (or_empty rd))) =
      (evs, Some pm)"
    and pm: "\<forall>k. or_else (pm k) ''Anonymous'' =
            or_else (fold profileMap_set (or_empty pd) Map.empty k) ''Anonymous'' \<or>
          spread_Set (map user_id (or_empty rd)) = []"
    by blast
  have "map (\<lambda>r. HelpRequest.extend r
                  (HelpRequestWithName.fields (or_else (pm (user_id r)) ''Anonymous'')))
             (or_empty rd) =
        map (\<lambda>r. HelpRequest.extend r
            (HelpRequestWithName.fields
               (or_else (fold profileMap_set (or_empty pd) Map.empty (user_id r))
                  ''Anonymous'')))
       (or_empty rd)"
  proof (cases "or_empty rd = []")
    case True
    then show ?thesis by simp
  next
    case False
    then have "spread_Set (map user_id (or_empty rd)) \<noteq> []"
      by (simp add: spread_Set_empty_iff)
    with pm show ?thesis by simp
  qed
  then show ?thesis
    by (simp add: fetchRequests_rows_ok [where backend = backend and profiles = profiles, OF assms(1) f])
qed

lemma fetchRequests_display_names:
  assumes "backend (Select_eq ''help_requests'' ''*'' ''status'' ''open'') =
             Resolved (Response rd None)"
    and "profiles (Select_in ''profiles'' ''id, full_name'' ''id''
                     (spread_Set (map user_id (or_empty rd)))) =
             Resolved (Response pd None)"
  shows "map HelpRequest.truncate (HelpRequestsState.requests (fst (fetchRequests backend profiles st))) = or_empty rd"
    and "\<forall>i < length (or_empty rd).
       (\<forall>ps1 p ps2. or_empty pd = ps1 @ p # ps2 \<and>
           Profile.id' p = user_id (or_empty rd ! i) \<and>
           (\<forall>q \<in> set ps2. Profile.id' q \<noteq> user_id (or_empty rd ! i)) \<longrightarrow>
           HelpRequestWithName.userName (HelpRequestsState.requests (fst (fetchRequests backend profiles st)) ! i) =
             or_else (full_name p) ''Anonymous'') \<and>
       ((\<forall>p \<in> set (or_empty pd).
            Profile.id' p = user_id (or_empty rd ! i) \<longrightarrow> full_name p = None) \<longrightarrow>
           HelpRequestWithName.userName (HelpRequestsState.requests (fst (fetchRequests backend profiles st)) ! i) =
             ''Anonymous'')"
proof -
  note n = fetchRequests_named [where backend = backend and profiles = profiles and st = st, OF assms]
  show "map HelpRequest.truncate (HelpRequestsState.requests (fst (fetchRequests backend profiles st))) = or_empty rd"
    unfolding n by (simp add: comp_def HelpRequest_truncate_extend)
  show "\<forall>i < length (or_empty rd).
       (\<forall>ps1 p ps2. or_empty pd = ps1 @ p # ps2 \<and>
           Profile.id' p = user_id (or_empty rd ! i) \<and>
           (\<forall>q \<in> set ps2. Profile.id' q \<noteq> user_id (or_empty rd ! i)) \<longrightarrow>
           HelpRequestWithName.userName (HelpRequestsState.requests (fst (fetchRequests backend profiles st)) ! i) =
             or_else (full_name p) ''Anonymous'') \<and>
       ((\<forall>p \<in> set (or_empty pd).
            Profile.id' p = user_id (or_empty rd ! i) \<longrightarrow> full_name p = None) \<longrightarrow>
           HelpRequestWithName.userName (HelpRequestsState.requests (fst (fetchRequests backend profiles st)) ! i) =
             ''Anonymous'')"
  proof (intro allI impI conjI)
    fix i ps1 p ps2
    assume i: "i < length (or_empty rd)"
      and p: "or_empty pd = ps1 @ p # ps2 \<and>
           Profile.id' p = user_id (or_empty rd ! i) \<and>
           (\<forall>q \<in> set ps2. Profile.id' q \<noteq> user_id (or_empty rd ! i))"
    from p have "fold profileMap_set (or_empty pd) Map.empty (user_id (or_empty rd ! i)) =
        Some (or_else (full_name p) ''Anonymous'')"
      using fold_profileMap_set_last [of ps2 p ps1 Map.empty] by simp
    then show "HelpRequestWithName.userName (HelpRequestsState.requests (fst (fetchRequests backend profiles st)) ! i) =
             or_else (full_name p) ''Anonymous''"
      unfolding n using i by (simp add: HelpRequest.defs HelpRequestWithName.defs or_else_idem)
  next
    fix i
    assume i: "i < length (or_empty rd)"
      and a: "\<forall>p \<in> set (or_empty pd).
            Profile.id' p = user_id (or_empty rd ! i) \<longrightarrow> full_name p = None"
    show "HelpRequestWithName.userName (HelpRequestsState.requests (fst (fetchRequests backend profiles st)) ! i) =
             ''Anonymous''"
      unfolding n using i fold_profileMap_set_absent [OF a]
      by (simp add: HelpRequest.defs HelpRequestWithName.defs)
  qed
qed

lemma fetchDonations_named:
  assumes "backend (Select_eq ''donations'' ''*'' ''status'' ''available'') =
             Resolved (Response rd None)"
    and "profiles (Select_in ''profiles'' ''id, full_name'' ''id''
                     (spread_Set (map user_id (or_empty rd)))) =
             Resolved (Response pd None)"
  shows "DonationsState.donations (fst (fetchDonations backend profiles st)) =
     map (\<lambda>r. Donation.extend r
            (DonationWithName.fields
               (or_else (fold profileMap_set (or_empty pd) Map.empty (user_id r))
                  ''Anonymous'')))
       (or_empty rd)"
proof -
  from fetchProfileMap_ok [of "spread_Set (map user_id (or_empty rd))" profiles pd] assms(2)
  obtain evs pm where f: "fetchProfileMap profiles (spread_Set (map user_id (or_empty rd))) =
      (evs, Some pm)"
    and pm: "\<forall>k. or_else (pm k) ''Anonymous'' =
            or_else (fold profileMap_set (or_empty pd) Map.empty k) ''Anonymous'' \<or>
          spread_Set (map user_id (or_empty rd)) = []"
    by blast
  have "map (\<lambda>r. Donation.extend r
                  (DonationWithName.fields (or_else (pm (user_id r)) ''Anonymous'')))
             (or_empty rd) =
        map (\<lambda>r. Donation.extend r
            (DonationWithName.fields
               (or_else (fold profileMap_set (or_empty pd) Map.empty (user_id r))
                  ''Anonymous'')))
       (or_empty rd)"
  proof (cases "or_empty rd = []")
    case True
    then show ?thesis by simp
  next
    case False
    then have "spread_Set (map user_id (or_empty rd)) \<noteq> []"
      by (simp add: spread_Set_empty_iff)
    with pm show ?thesis by simp
  qed
  then show ?thesis
    by (simp add: fetchDonations_rows_ok [where backend = backend and profiles = profiles, OF assms(1) f])
qed

lemma fetchDonations_display_names:
  assumes "backend (Select_eq ''donations'' ''*'' ''status'' ''available'') =
             Resolved (Response rd None)"
    and "profiles (Select_in ''profiles'' ''id, full_name'' ''id''
                     (spread_Set (map user_id (or_empty rd)))) =
             Resolved (Response pd None)"
  shows "map Donation.truncate (DonationsState.donations (fst (fetchDonations backend profiles st))) = or_empty rd"
    and "\<forall>i < length (or_empty rd).
       (\<forall>ps1 p ps2. or_empty pd = ps1 @ p # ps2 \<and>
           Profile.id' p = user_id (or_empty rd ! i) \<and>
           (\<forall>q \<in> set ps2. Profile.id' q \<noteq> user_id (or_empty rd ! i)) \<longrightarrow>
           DonationWithName.userName (DonationsState.donations (fst (fetchDonations backend profiles st)) ! i) =
             or_else (full_name p) ''Anonymous'') \<and>
       ((\<forall>p \<in> set (or_empty pd).
            Profile.id' p = user_id (or_empty rd ! i) \<longrightarrow> full_name p = None) \<longrightarrow>
           DonationWithName.userName (DonationsState.donations (fst (fetchDonations backend profiles st)) ! i) =
             ''Anonymous'')"
proof -
  note n = fetchDonations_named [where backend = backend and profiles = profiles and st = st, OF assms]
  show "map Donation.truncate (DonationsState.donations (fst (fetchDonations backend profiles st))) = or_empty rd"
    unfolding n by (simp add: comp_def Donation_truncate_extend)
  show "\<forall>i < length (or_empty rd).
       (\<forall>ps1 p ps2. or_empty pd = ps1 @ p # ps2 \<and>
           Profile.id' p = user_id (or_empty rd ! i) \<and>
           (\<forall>q \<in> set ps2. Profile.id' q \<noteq> user_id (or_empty rd ! i)) \<longrightarrow>
           DonationWithName.userName (DonationsState.donations (fst (fetchDonations backend profiles st)) ! i) =
             or_else (full_name p) ''Anonymous'') \<and>
       ((\<forall>p \<in> set (or_empty pd).
            Profile.id' p = user_id (or_empty rd ! i) \<longrightarrow> full_name p = None) \<longrightarrow>
           DonationWithName.userName (DonationsState.donations (fst (fetchDonations backend profiles st)) ! i) =
             ''Anonymous'')"
  proof (intro allI impI conjI)
    fix i ps1 p ps2
    assume i: "i < length (or_empty rd)"
      and p: "or_empty pd = ps1 @ p # ps2 \<and>
           Profile.id' p = user_id (or_empty rd ! i) \<and>
           (\<forall>q \<in> set ps2. Profile.id' q \<noteq> user_id (or_empty rd ! i))"
    from p have "fold profileMap_set (or_empty pd) Map.empty (user_id (or_empty rd ! i)) =
        Some (or_else (full_name p) ''Anonymous'')"
      using fold_profileMap_set_last [of ps2 p ps1 Map.empty] by simp
    then show "DonationWithName.userName (DonationsState.donations (fst (fetchDonations backend profiles st)) ! i) =
             or_else (full_name p) ''Anonymous''"
      unfolding n using i by (simp add: Donation.defs DonationWithName.defs or_else_idem)
  next
    fix i
    assume i: "i < length (or_empty rd)"
      and a: "\<forall>p \<in> set (or_empty pd).
            Profile.id' p = user_id (or_empty rd ! i) \<longrightarrow> full_name p = None"
    show "DonationWithName.userName (DonationsState.donations (fst (fetchDonations backend profiles st)) ! i) =
             ''Anonymous''"
      unfolding n using i fold_profileMap_set_absent [OF a]
      by (simp add: Donation.defs DonationWithName.defs)
  qed
qed

lemma fetchRequests_queries:
  assumes "backend (Select_eq ''help_requests'' ''*'' ''status'' ''open'') =
             Resolved (Response rd None)"
  shows "filter is_request (snd (fetchRequests backend profiles st)) =
     Request (Select_eq ''help_requests'' ''*'' ''status'' ''open'') #
       (if or_empty rd = [] then []
        else [Request (Select_in ''profiles'' ''id, full_name'' ''id''
                         (spread_Set (map user_id (or_empty rd))))])"
proof -
  obtain evs res where f:
    "fetchProfileMap profiles (spread_Set (map user_id (or_empty rd))) = (evs, res)"
    by (cases "fetchProfileMap profiles (spread_Set (map user_id (or_empty rd)))")
  have evs: "filter is_request evs =
       (if or_empty rd = [] then []
        else [Request (Select_in ''profiles'' ''id, full_name'' ''id''
                         (spread_Set (map user_id (or_empty rd))))])"
    using fetchProfileMap_requests [of profiles "spread_Set (map user_id (or_empty rd))"] f
    by (simp add: spread_Set_empty_iff)
  show ?thesis
  proof (cases res)
    case None
    with f assms evs show ?thesis
      by (simp add: fetchRequests_rows_ok_thrown [where backend = backend and profiles = profiles])
  next
    case (Some pm)
    with f assms evs show ?thesis
      by (simp add: fetchRequests_rows_ok [where backend = backend and profiles = profiles])
  qed
qed

lemma fetchRequests_toasts: "filter is_toast (snd (fetchRequests backend profiles st)) = []"
proof -
  have "filter is_toast (fst (fetchRequests_try backend profiles)) = []"
  proof (cases "backend (Select_eq ''help_requests'' ''*'' ''status'' ''open'')")
    case Threw
    then show ?thesis by (simp add: fetchRequests_try_def Let_def)
  next
    case (Resolved r)
    obtain rd re where r: "r = Response rd re" by (cases r)
    obtain evs res where f:
      "fetchProfileMap profiles (spread_Set (map user_id (or_empty rd))) = (evs, res)"
      by (cases "fetchProfileMap profiles (spread_Set (map user_id (or_empty rd)))")
    have "filter is_toast evs = []"
      using fetchProfileMap_toasts [of profiles "spread_Set (map user_id (or_empty rd))"] f
      by simp
    then show ?thesis using Resolved r f
      by (cases re; cases res) (simp_all add: fetchRequests_try_def Let_def)
  qed
  then show ?thesis
    by (cases "fetchRequests_try backend profiles") (simp add: fetchRequests_def split: option.splits)
qed

lemma fetchRequests_profiles_error:
  assumes "backend (Select_eq ''help_requests'' ''*'' ''status'' ''open'') =
             Resolved (Response rd None)"
    and "profiles (Select_in ''profiles'' ''id, full_name'' ''id''
                     (spread_Set (map user_id (or_empty rd)))) =
             Resolved (Response pd (Some e))"
  shows "fst (fetchRequests backend profiles st) =
     st\<lparr>error := None,
        HelpRequestsState.requests :=
          map (\<lambda>r. HelpRequest.extend r (HelpRequestWithName.fields ''Anonymous'')) (or_empty rd),
        loading := False\<rparr>"
proof -
  from fetchProfileMap_error [of profiles "spread_Set (map user_id (or_empty rd))" pd e]
    assms(2)
  obtain evs where f: "fetchProfileMap profiles (spread_Set (map user_id (or_empty rd))) =
      (evs, Some Map.empty)"
    by blast
  show ?thesis
    by (simp add: fetchRequests_rows_ok [where backend = backend and profiles = profiles,
          OF assms(1) f] or_else_def)
qed

lemma fetchRequests_error_iff:
  "error (fst (fetchRequests backend profiles st)) \<noteq> None \<longleftrightarrow>
     (\<forall>rd. backend (Select_eq ''help_requests'' ''*'' ''status'' ''open'') \<noteq>
             Resolved (Response rd None)) \<or>
     (\<exists>rd. backend (Select_eq ''help_requests'' ''*'' ''status'' ''open'') =
             Resolved (Response rd None) \<and>
           or_empty rd \<noteq> [] \<and>
           profiles (Select_in ''profiles'' ''id, full_name'' ''id''
                       (spread_Set (map user_id (or_empty rd)))) = Threw)"
proof (cases "\<exists>rd. backend (Select_eq ''help_requests'' ''*'' ''status'' ''open'') =
             Resolved (Response rd None)")
  case True
  then obtain rd where rd: "backend (Select_eq ''help_requests'' ''*'' ''status'' ''open'') =
             Resolved (Response rd None)"
    by blast
  obtain evs res where f:
    "fetchProfileMap profiles (spread_Set (map user_id (or_empty rd))) = (evs, res)"
    by (cases "fetchProfileMap profiles (spread_Set (map user_id (or_empty rd)))")
  have t: "res = None \<longleftrightarrow>
      or_empty rd \<noteq> [] \<and>
      profiles (Select_in ''profiles'' ''id, full_name'' ''id''
                  (spread_Set (map user_id (or_empty rd)))) = Threw"
    using fetchProfileMap_thrown_iff [of profiles "spread_Set (map user_id (or_empty rd))"] f
    by (simp add: spread_Set_empty_iff)
  show ?thesis
  proof (cases res)
    case None
    with f have f': "fetchProfileMap profiles (spread_Set (map user_id (or_empty rd))) =
        (evs, None)"
      by simp
    from None t have "or_empty rd \<noteq> [] \<and>
      profiles (Select_in ''profiles'' ''id, full_name'' ''id''
                  (spread_Set (map user_id (or_empty rd)))) = Threw"
      by simp
    then show ?thesis
      using rd
      by (simp add: fetchRequests_rows_ok_thrown
            [where backend = backend and profiles = profiles, OF rd f'])
  next
    case (Some pm)
    with f have f': "fetchProfileMap profiles (spread_Set (map user_id (or_empty rd))) =
        (evs, Some pm)"
      by simp
    from Some t have "\<not> (or_empty rd \<noteq> [] \<and>
      profiles (Select_in ''profiles'' ''id, full_name'' ''id''
                  (spread_Set (map user_id (or_empty rd)))) = Threw)"
      by simp
    then show ?thesis
      using rd
      by (simp add: fetchRequests_rows_ok
            [where backend = backend and profiles = profiles, OF rd f'])
  qed
next
  case False
  then have "\<forall>rd. backend (Select_eq ''help_requests'' ''*'' ''status'' ''open'') \<noteq>
             Resolved (Response rd None)"
    by blast
  then show ?thesis
    by (simp add: fetchRequests_rows_failed [where backend = backend and profiles = profiles])
qed

lemma fetchDonations_queries:
  assumes "backend (Select_eq ''donations'' ''*'' ''status'' ''available'') =
             Resolved (Response rd None)"
  shows "filter is_request (snd (fetchDonations backend profiles st)) =
     Request (Select_eq ''donations'' ''*'' ''status'' ''available'') #
       (if or_empty rd = [] then []
        else [Request (Select_in ''profiles'' ''id, full_name'' ''id''
                         (spread_Set (map user_id (or_empty rd))))])"
proof -
  obtain evs res where f:
    "fetchProfileMap profiles (spread_Set (map user_id (or_empty rd))) = (evs, res)"
    by (cases "fetchProfileMap profiles (spread_Set (map user_id (or_empty rd)))")
  have evs: "filter is_request evs =
       (if or_empty rd = [] then []
        else [Request (Select_in ''profiles'' ''id, full_name'' ''id''
                         (spread_Set (map user_id (or_empty rd))))])"
    using fetchProfileMap_requests [of profiles "spread_Set (map user_id (or_empty rd))"] f
    by (simp add: spread_Set_empty_iff)
  show ?thesis
  proof (cases res)
    case None
    with f assms evs show ?thesis
      by (simp add: fetchDonations_rows_ok_thrown [where backend = backend and profiles = profiles])
  next
    case (Some pm)
    with f assms evs show ?thesis
      by (simp add: fetchDonations_rows_ok [where backend = backend and profiles = profiles])
  qed
qed

lemma fetchDonations_toasts: "filter is_toast (snd (fetchDonations backend profiles st)) = []"
proof -
  have "filter is_toast (fst (fetchDonations_try backend profiles)) = []"
  proof (cases "backend (Select_eq ''donations'' ''*'' ''status'' ''available'')")
    case Threw
    then show ?thesis by (simp add: fetchDonations_try_def Let_def)
  next
    case (Resolved r)
    obtain rd re where r: "r = Response rd re" by (cases r)
    obtain evs res where f:
      "fetchProfileMap profiles (spread_Set (map user_id (or_empty rd))) = (evs, res)"
      by (cases "fetchProfileMap profiles (spread_Set (map user_id (or_empty rd)))")
    have "filter is_toast evs = []"
      using fetchProfileMap_toasts [of profiles "spread_Set (map user_id (or_empty rd))"] f
      by simp
    then show ?thesis using Resolved r f
      by (cases re; cases res) (simp_all add: fetchDonations_try_def Let_def)
  qed
  then show ?thesis
    by (cases "fetchDonations_try backend profiles") (simp add: fetchDonations_def split: option.splits)
qed

lemma fetchDonations_profiles_error:
  assumes "backend (Select_eq ''donations'' ''*'' ''status'' ''available'') =
             Resolved (Response rd None)"
    and "profiles (Select_in ''profiles'' ''id, full_name'' ''id''
                     (spread_Set (map user_id (or_empty rd)))) =
             Resolved (Response pd (Some e))"
  shows "fst (fetchDonations backend profiles st) =
     st\<lparr>error := None,
        DonationsState.donations :=
          map (\<lambda>r. Donation.extend r (DonationWithName.fields ''Anonymous'')) (or_empty rd),
        loading := False\<rparr>"
proof -
  from fetchProfileMap_error [of profiles "spread_Set (map user_id (or_empty rd))" pd e]
    assms(2)
  obtain evs where f: "fetchProfileMap profiles (spread_Set (map user_id (or_empty rd))) =
      (evs, Some Map.empty)"
    by blast
  show ?thesis
    by (simp add: fetchDonations_rows_ok [where backend = backend and profiles = profiles,
          OF assms(1) f] or_else_def)
qed

lemma fetchDonations_error_iff:
  "error (fst (fetchDonations backend profiles st)) \<noteq> None \<longleftrightarrow>
     (\<forall>rd. backend (Select_eq ''donations'' ''*'' ''status'' ''available'') \<noteq>
             Resolved (Response rd None)) \<or>
     (\<exists>rd. backend (Select_eq ''donations'' ''*'' ''status'' ''available'') =
             Resolved (Response rd None) \<and>
           or_empty rd \<noteq> [] \<and>
           profiles (Select_in ''profiles'' ''id, full_name'' ''id''
                       (spread_Set (map user_id (or_empty rd)))) = Threw)"
proof (cases "\<exists>rd. backend (Select_eq ''donations'' ''*'' ''status'' ''available'') =
             Resolved (Response rd None)")
  case True
  then obtain rd where rd: "backend (Select_eq ''donations'' ''*'' ''status'' ''available'') =
             Resolved (Response rd None)"
    by blast
  obtain evs res where f:
    "fetchProfileMap profiles (spread_Set (map user_id (or_empty rd))) = (evs, res)"
    by (cases "fetchProfileMap profiles (spread_Set (map user_id (or_empty rd)))")
  have t: "res = None \<longleftrightarrow>
      or_empty rd \<noteq> [] \<and>
      profiles (Select_in ''profiles'' ''id, full_name'' ''id''
                  (spread_Set (map user_id (or_empty rd)))) = Threw"
    using fetchProfileMap_thrown_iff [of profiles "spread_Set (map user_id (or_empty rd))"] f
    by (simp add: spread_Set_empty_iff)
  show ?thesis
  proof (cases res)
    case None
    with f have f': "fetchProfileMap profiles (spread_Set (map user_id (or_empty rd))) =
        (evs, None)"
      by simp
    from None t have "or_empty rd \<noteq> [] \<and>
      profiles (Select_in ''profiles'' ''id, full_name'' ''id''
                  (spread_Set (map user_id (or_empty rd)))) = Threw"
      by simp
    then show ?thesis
      using rd
      by (simp add: fetchDonations_rows_ok_thrown
            [where backend = backend and profiles = profiles, OF rd f'])
  next
    case (Some pm)
    with f have f': "fetchProfileMap profiles (spread_Set (map user_id (or_empty rd))) =
        (evs, Some pm)"
      by simp
    from Some t have "\<not> (or_empty rd \<noteq> [] \<and>
      profiles (Select_in ''profiles'' ''id, full_name'' ''id''
                  (spread_Set (map user_id (or_empty rd)))) = Threw)"
      by simp
    then show ?thesis
      using rd
      by (simp add: fetchDonations_rows_ok
            [where backend = backend and profiles = profiles, OF rd f'])
  qed
next
  case False
  then have "\<forall>rd. backend (Select_eq ''donations'' ''*'' ''status'' ''available'') \<noteq>
             Resolved (Response rd None)"
    by blast
  then show ?thesis
    by (simp add: fetchDonations_rows_failed [where backend = backend and profiles = profiles])
qed

text \<open>
  Claim C2. When the rows and the profiles are fetched, a listing page keeps the rows as
  fetched, in order, each with a display name: the name under the row's \<^verbatim>\<open>user_id\<close>
  in the lookup built from the profiles, which is the \<^verbatim>\<open>full_name\<close> of the last
  profile with that id, or ``Anonymous'' when that name is absent (or empty). A row whose
  \<^verbatim>\<open>user_id\<close> has no profile, or only profiles without a \<^verbatim>\<open>full_name\<close>, is named
  ``Anonymous''.
\<close>

theorem listing_display_names:
  "(backend (Select_eq ''help_requests'' ''*'' ''status'' ''open'') = Resolved (Response rd None) \<and>
     profiles (Select_in ''profiles'' ''id, full_name'' ''id'' (spread_Set (map user_id (or_empty rd)))) =
       Resolved (Response pd None) \<longrightarrow>
     map HelpRequest.truncate (HelpRequestsState.requests (fst (fetchRequests backend profiles st))) = or_empty rd \<and>
     (\<forall>i < length (or_empty rd).
       (\<forall>ps1 p ps2. or_empty pd = ps1 @ p # ps2 \<and>
           Profile.id' p = user_id (or_empty rd ! i) \<and>
           (\<forall>q \<in> set ps2. Profile.id' q \<noteq> user_id (or_empty rd ! i)) \<longrightarrow>
           HelpRequestWithName.userName (HelpRequestsState.requests (fst (fetchRequests backend profiles st)) ! i) =
             or_else (full_name p) ''Anonymous'') \<and>
       ((\<forall>p \<in> set (or_empty pd).
            Profile.id' p = user_id (or_empty rd ! i) \<longrightarrow> full_name p = None) \<longrightarrow>
           HelpRequestWithName.userName (HelpRequestsState.requests (fst (fetchRequests backend profiles st)) ! i) =
             ''Anonymous''))) \<and>
   (backend' (Select_eq ''donations'' ''*'' ''status'' ''available'') = Resolved (Response rd' None) \<and>
     profiles' (Select_in ''profiles'' ''id, full_name'' ''id'' (spread_Set (map user_id (or_empty rd')))) =
       Resolved (Response pd' None) \<longrightarrow>
     map Donation.truncate (DonationsState.donations (fst (fetchDonations backend' profiles' st'))) = or_empty rd' \<and>
     (\<forall>i < length (or_empty rd').
       (\<forall>ps1 p ps2. or_empty pd' = ps1 @ p # ps2 \<and>
           Profile.id' p = user_id (or_empty rd' ! i) \<and>
           (\<forall>q \<in> set ps2. Profile.id' q \<noteq> user_id (or_empty rd' ! i)) \<longrightarrow>
           DonationWithName.userName (DonationsState.donations (fst (fetchDonations backend' profiles' st')) ! i) =
             or_else (full_name p) ''Anonymous'') \<and>
       ((\<forall>p \<in> set (or_empty pd').
            Profile.id' p = user_id (or_empty rd' ! i) \<longrightarrow> full_name p = None) \<longrightarrow>
           DonationWithName.userName (DonationsState.donations (fst (fetchDonations backend' profiles' st')) ! i) =
             ''Anonymous'')))"
  (is "(?A1 \<and> ?A2 \<longrightarrow> ?B) \<and> (?C1 \<and> ?C2 \<longrightarrow> ?D)")
proof (rule conjI)
  show "?A1 \<and> ?A2 \<longrightarrow> ?B"
  proof (rule impI)
    assume a: "?A1 \<and> ?A2"
    then have a1: ?A1 and a2: ?A2 by simp_all
    from fetchRequests_display_names(1)
           [where backend = backend and profiles = profiles and st = st, OF a1 a2]
         fetchRequests_display_names(2)
           [where backend = backend and profiles = profiles and st = st, OF a1 a2]
    show ?B by (rule conjI)
  qed
  show "?C1 \<and> ?C2 \<longrightarrow> ?D"
  proof (rule impI)
    assume a: "?C1 \<and> ?C2"
    then have a1: ?C1 and a2: ?C2 by simp_all
    from fetchDonations_display_names(1)
           [where backend = backend' and profiles = profiles' and st = st', OF a1 a2]
         fetchDonations_display_names(2)
           [where backend = backend' and profiles = profiles' and st = st', OF a1 a2]
    show ?D by (rule conjI)
  qed
qed

theorem listing_display_names_witness:
  "HelpRequestsState.requests (fst (fetchRequests
      (\<lambda>q. Resolved (Response (Some
        [\<lparr>Listing.id' = ''r1'', Listing.title = ''Need a ride'', Listing.description = Some ''To the clinic'',
          Listing.category = ''Services'', created_at = ''2025-01-03'', Donation.location = Some ''Pune'',
          user_id = ''u1'', HelpRequest.urgency = ''high''\<rparr>,
         \<lparr>Listing.id' = ''r2'', Listing.title = ''Winter Coat'', Listing.description = None,
          Listing.category = ''Clothing'', created_at = ''2025-01-02'', Donation.location = None,
          user_id = ''u2'', HelpRequest.urgency = ''low''\<rparr>,
         \<lparr>Listing.id' = ''r3'', Listing.title = ''School books'', Listing.description = Some ''Grade 5'',
          Listing.category = ''Education'', created_at = ''2025-01-01'', Donation.location = None,
          user_id = ''u1'', HelpRequest.urgency = ''medium''\<rparr>]) None))
      (\<lambda>q. Resolved (Response (Some
        [\<lparr>Profile.id' = ''u1'', full_name = Some ''Asha''\<rparr>,
         \<lparr>Profile.id' = ''u2'', full_name = None\<rparr>]) None))
      \<lparr>loading = True, error = None, searchQuery = [], selectedCategory = ''All'',
        HelpRequestsState.requests = []\<rparr>)) =
     [\<lparr>Listing.id' = ''r1'', Listing.title = ''Need a ride'', Listing.description = Some ''To the clinic'',
          Listing.category = ''Services'', created_at = ''2025-01-03'', Donation.location = Some ''Pune'',
          user_id = ''u1'', HelpRequest.urgency = ''high'',
          HelpRequestWithName.userName = ''Asha''\<rparr>,
      \<lparr>Listing.id' = ''r2'', Listing.title = ''Winter Coat'', Listing.description = None,
          Listing.category = ''Clothing'', created_at = ''2025-01-02'', Donation.location = None,
          user_id = ''u2'', HelpRequest.urgency = ''low'',
          HelpRequestWithName.userName = ''Anonymous''\<rparr>,
      \<lparr>Listing.id' = ''r3'', Listing.title = ''School books'', Listing.description = Some ''Grade 5'',
          Listing.category = ''Education'', created_at = ''2025-01-01'', Donation.location = None,
          user_id = ''u1'', HelpRequest.urgency = ''medium'',
          HelpRequestWithName.userName = ''Asha''\<rparr>] \<and>
   DonationsState.donations (fst (fetchDonations
      (\<lambda>q. Resolved (Response (Some
        [\<lparr>Listing.id' = ''d1'', Listing.title = ''Rice'', Listing.description = Some ''5 kg bag'',
          Listing.category = ''Food'', created_at = ''2025-01-04'', Donation.location = Some ''Pune'',
          user_id = ''u3''\<rparr>]) None))
      (\<lambda>q. Resolved (Response (Some []) None))
      \<lparr>loading = True, error = None, searchQuery = [], selectedCategory = ''All'',
        DonationsState.donations = []\<rparr>)) =
     [\<lparr>Listing.id' = ''d1'', Listing.title = ''Rice'', Listing.description = Some ''5 kg bag'',
          Listing.category = ''Food'', created_at = ''2025-01-04'', Donation.location = Some ''Pune'',
          user_id = ''u3'',
          DonationWithName.userName = ''Anonymous''\<rparr>]"
  using listing_display_names
    [where backend = "(\<lambda>q. Resolved (Response (Some
        [\<lparr>Listing.id' = ''r1'', Listing.title = ''Need a ride'', Listing.description = Some ''To the clinic'',
          Listing.category = ''Services'', created_at = ''2025-01-03'', Donation.location = Some ''Pune'',
          user_id = ''u1'', HelpRequest.urgency = ''high''\<rparr>,
         \<lparr>Listing.id' = ''r2'', Listing.title = ''Winter Coat'', Listing.description = None,
          Listing.category = ''Clothing'', created_at = ''2025-01-02'', Donation.location = None,
          user_id = ''u2'', HelpRequest.urgency = ''low''\<rparr>,
         \<lparr>Listing.id' = ''r3'', Listing.title = ''School books'', Listing.description = Some ''Grade 5'',
          Listing.category = ''Education'', created_at = ''2025-01-01'', Donation.location = None,
          user_id = ''u1'', HelpRequest.urgency = ''medium''\<rparr>]) None))"
       and rd = "Some
        [\<lparr>Listing.id' = ''r1'', Listing.title = ''Need a ride'', Listing.description = Some ''To the clinic'',
          Listing.category = ''Services'', created_at = ''2025-01-03'', Donation.location = Some ''Pune'',
          user_id = ''u1'', HelpRequest.urgency = ''high''\<rparr>,
         \<lparr>Listing.id' = ''r2'', Listing.title = ''Winter Coat'', Listing.description = None,
          Listing.category = ''Clothing'', created_at = ''2025-01-02'', Donation.location = None,
          user_id = ''u2'', HelpRequest.urgency = ''low''\<rparr>,
         \<lparr>Listing.id' = ''r3'', Listing.title = ''School books'', Listing.description = Some ''Grade 5'',
          Listing.category = ''Education'', created_at = ''2025-01-01'', Donation.location = None,
          user_id = ''u1'', HelpRequest.urgency = ''medium''\<rparr>]"
       and profiles = "(\<lambda>q. Resolved (Response (Some
        [\<lparr>Profile.id' = ''u1'', full_name = Some ''Asha''\<rparr>,
         \<lparr>Profile.id' = ''u2'', full_name = None\<rparr>]) None))"
       and pd = "Some
        [\<lparr>Profile.id' = ''u1'', full_name = Some ''Asha''\<rparr>,
         \<lparr>Profile.id' = ''u2'', full_name = None\<rparr>]"
       and st = "\<lparr>loading = True, error = None, searchQuery = [], selectedCategory = ''All'',
        HelpRequestsState.requests = []\<rparr>"
       and backend' = "(\<lambda>q. Resolved (Response (Some
        [\<lparr>Listing.id' = ''d1'', Listing.title = ''Rice'', Listing.description = Some ''5 kg bag'',
          Listing.category = ''Food'', created_at = ''2025-01-04'', Donation.location = Some ''Pune'',
          user_id = ''u3''\<rparr>]) None))"
       and rd' = "Some
        [\<lparr>Listing.id' = ''d1'', Listing.title = ''Rice'', Listing.description = Some ''5 kg bag'',
          Listing.category = ''Food'', created_at = ''2025-01-04'', Donation.location = Some ''Pune'',
          user_id = ''u3''\<rparr>]"
       and profiles' = "(\<lambda>q. Resolved (Response (Some []) None))"
       and pd' = "Some []"
       and st' = "\<lparr>loading = True, error = None, searchQuery = [], selectedCategory = ''All'',
        DonationsState.donations = []\<rparr>"]
  by (simp add: fetchRequests_def fetchRequests_try_def fetchDonations_def fetchDonations_try_def
      fetchProfileMap_def spread_Set_def Set_add_def profileMap_set_def or_else_def
      or_empty_def Let_def HelpRequest.defs HelpRequestWithName.defs Donation.defs
      DonationWithName.defs)

text \<open>
  Claim C8. When the rows are fetched, a listing page asks for the profiles whose id is in
  the list of the distinct \<^verbatim>\<open>user_id\<close> values of the rows: a list without
  repetition that holds exactly the values occurring in the rows. When no row was fetched,
  the rows query is the only request: no profiles query is issued.
\<close>

theorem listing_profiles_query:
  "(backend (Select_eq ''help_requests'' ''*'' ''status'' ''open'') = Resolved (Response rd None) \<longrightarrow>
     (or_empty rd = [] \<longrightarrow>
        filter is_request (snd (fetchRequests backend profiles st)) =
          [Request (Select_eq ''help_requests'' ''*'' ''status'' ''open'')]) \<and>
     (or_empty rd \<noteq> [] \<longrightarrow>
        (\<exists>ids. filter is_request (snd (fetchRequests backend profiles st)) =
                 [Request (Select_eq ''help_requests'' ''*'' ''status'' ''open''),
                  Request (Select_in ''profiles'' ''id, full_name'' ''id'' ids)] \<and>
               distinct ids \<and> set ids = user_id ` set (or_empty rd)))) \<and>
   (backend' (Select_eq ''donations'' ''*'' ''status'' ''available'') = Resolved (Response rd' None) \<longrightarrow>
     (or_empty rd' = [] \<longrightarrow>
        filter is_request (snd (fetchDonations backend' profiles' st')) =
          [Request (Select_eq ''donations'' ''*'' ''status'' ''available'')]) \<and>
     (or_empty rd' \<noteq> [] \<longrightarrow>
        (\<exists>ids. filter is_request (snd (fetchDonations backend' profiles' st')) =
                 [Request (Select_eq ''donations'' ''*'' ''status'' ''available''),
                  Request (Select_in ''profiles'' ''id, full_name'' ''id'' ids)] \<and>
               distinct ids \<and> set ids = user_id ` set (or_empty rd'))))"
  (is "(?A \<longrightarrow> ?B) \<and> (?C \<longrightarrow> ?D)")
proof (rule conjI)
  show "?A \<longrightarrow> ?B"
  proof (rule impI)
    assume a: ?A
    have "distinct (spread_Set (map user_id (or_empty rd))) \<and>
          set (spread_Set (map user_id (or_empty rd))) = user_id ` set (or_empty rd)"
      by (simp add: distinct_spread_Set set_spread_Set)
    then show ?B
      by (simp add: fetchRequests_queries [where backend = backend, OF a])
  qed
  show "?C \<longrightarrow> ?D"
  proof (rule impI)
    assume a: ?C
    have "distinct (spread_Set (map user_id (or_empty rd'))) \<and>
          set (spread_Set (map user_id (or_empty rd'))) = user_id ` set (or_empty rd')"
      by (simp add: distinct_spread_Set set_spread_Set)
    then show ?D
      by (simp add: fetchDonations_queries [where backend = backend', OF a])
  qed
qed

theorem listing_profiles_query_witness:
  "snd (fetchRequests
      (\<lambda>q. Resolved (Response (Some
        [\<lparr>Listing.id' = ''r1'', Listing.title = ''Need a ride'', Listing.description = Some ''To the clinic'',
          Listing.category = ''Services'', created_at = ''2025-01-03'', Donation.location = Some ''Pune'',
          user_id = ''u1'', HelpRequest.urgency = ''high''\<rparr>,
         \<lparr>Listing.id' = ''r2'', Listing.title = ''Winter Coat'', Listing.description = None,
          Listing.category = ''Clothing'', created_at = ''2025-01-02'', Donation.location = None,
          user_id = ''u2'', HelpRequest.urgency = ''low''\<rparr>,
         \<lparr>Listing.id' = ''r3'', Listing.title = ''School books'', Listing.description = Some ''Grade 5'',
          Listing.category = ''Education'', created_at = ''2025-01-01'', Donation.location = None,
          user_id = ''u1'', HelpRequest.urgency = ''medium''\<rparr>]) None))
      (\<lambda>q. Resolved (Response (Some
        [\<lparr>Profile.id' = ''u1'', full_name = Some ''Asha''\<rparr>,
         \<lparr>Profile.id' = ''u2'', full_name = None\<rparr>]) None))
      \<lparr>loading = True, error = None, searchQuery = [], selectedCategory = ''All'',
        HelpRequestsState.requests = []\<rparr>) =
     [Request (Select_eq ''help_requests'' ''*'' ''status'' ''open''),
      Request (Select_in ''profiles'' ''id, full_name'' ''id'' [''u1'', ''u2''])] \<and>
   snd (fetchDonations
      (\<lambda>q. Resolved (Response (Some []) None))
      (\<lambda>q. Resolved (Response (Some []) None))
      \<lparr>loading = True, error = None, searchQuery = [], selectedCategory = ''All'',
        DonationsState.donations = []\<rparr>) =
     [Request (Select_eq ''donations'' ''*'' ''status'' ''available'')]"
  using listing_profiles_query
    [where backend = "(\<lambda>q. Resolved (Response (Some
        [\<lparr>Listing.id' = ''r1'', Listing.title = ''Need a ride'', Listing.description = Some ''To the clinic'',
          Listing.category = ''Services'', created_at = ''2025-01-03'', Donation.location = Some ''Pune'',
          user_id = ''u1'', HelpRequest.urgency = ''high''\<rparr>,
         \<lparr>Listing.id' = ''r2'', Listing.title = ''Winter Coat'', Listing.description = None,
          Listing.category = ''Clothing'', created_at = ''2025-01-02'', Donation.location = None,
          user_id = ''u2'', HelpRequest.urgency = ''low''\<rparr>,
         \<lparr>Listing.id' = ''r3'', Listing.title = ''School books'', Listing.description = Some ''Grade 5'',
          Listing.category = ''Education'', created_at = ''2025-01-01'', Donation.location = None,
          user_id = ''u1'', HelpRequest.urgency = ''medium''\<rparr>]) None))"
       and rd = "Some
        [\<lparr>Listing.id' = ''r1'', Listing.title = ''Need a ride'', Listing.description = Some ''To the clinic'',
          Listing.category = ''Services'', created_at = ''2025-01-03'', Donation.location = Some ''Pune'',
          user_id = ''u1'', HelpRequest.urgency = ''high''\<rparr>,
         \<lparr>Listing.id' = ''r2'', Listing.title = ''Winter Coat'', Listing.description = None,
          Listing.category = ''Clothing'', created_at = ''2025-01-02'', Donation.location = None,
          user_id = ''u2'', HelpRequest.urgency = ''low''\<rparr>,
         \<lparr>Listing.id' = ''r3'', Listing.title = ''School books'', Listing.description = Some ''Grade 5'',
          Listing.category = ''Education'', created_at = ''2025-01-01'', Donation.location = None,
          user_id = ''u1'', HelpRequest.urgency = ''medium''\<rparr>]"
       and profiles = "(\<lambda>q. Resolved (Response (Some
        [\<lparr>Profile.id' = ''u1'', full_name = Some ''Asha''\<rparr>,
         \<lparr>Profile.id' = ''u2'', full_name = None\<rparr>]) None))"
       and st = "\<lparr>loading = True, error = None, searchQuery = [], selectedCategory = ''All'',
        HelpRequestsState.requests = []\<rparr>"
       and backend' = "\<lambda>q. Resolved (Response (Some []) None)"
       and rd' = "Some []"
       and profiles' = "(\<lambda>q. Resolved (Response (Some []) None))"
       and st' = "\<lparr>loading = True, error = None, searchQuery = [], selectedCategory = ''All'',
        DonationsState.donations = []\<rparr>"]
  by (simp add: fetchRequests_def fetchRequests_try_def fetchDonations_def fetchDonations_try_def
      fetchProfileMap_def spread_Set_def Set_add_def profileMap_set_def or_else_def
      or_empty_def Let_def HelpRequest.defs HelpRequestWithName.defs Donation.defs
      DonationWithName.defs)

text \<open>
  Claim C9. When the rows are fetched and the profiles query answers with an error, a
  listing page sets no error state and shows no toast: loading ends, the rows are kept as
  fetched and every one is named ``Anonymous''. The error state is set exactly when the
  rows query did not succeed, or rows were fetched and the await of the profiles query
  threw: a profiles failure that is thrown, not answered, does reach the error state, so
  the rows query is not the only one whose failure produces it.
\<close>

theorem listing_profiles_failure_tolerated:
  "(backend (Select_eq ''help_requests'' ''*'' ''status'' ''open'') = Resolved (Response rd None) \<and>
     profiles (Select_in ''profiles'' ''id, full_name'' ''id'' (spread_Set (map user_id (or_empty rd)))) =
       Resolved (Response pd (Some e)) \<longrightarrow>
     error (fst (fetchRequests backend profiles st)) = None \<and>
     loading (fst (fetchRequests backend profiles st)) = False \<and>
     filter is_toast (snd (fetchRequests backend profiles st)) = [] \<and>
     map HelpRequest.truncate (HelpRequestsState.requests (fst (fetchRequests backend profiles st))) = or_empty rd \<and>
     (\<forall>r \<in> set (HelpRequestsState.requests (fst (fetchRequests backend profiles st))).
        HelpRequestWithName.userName r = ''Anonymous'')) \<and>
   (error (fst (fetchRequests backend profiles st)) \<noteq> None \<longleftrightarrow>
      (\<forall>rd. backend (Select_eq ''help_requests'' ''*'' ''status'' ''open'') \<noteq>
              Resolved (Response rd None)) \<or>
      (\<exists>rd. backend (Select_eq ''help_requests'' ''*'' ''status'' ''open'') =
              Resolved (Response rd None) \<and>
            or_empty rd \<noteq> [] \<and>
            profiles (Select_in ''profiles'' ''id, full_name'' ''id''
                        (spread_Set (map user_id (or_empty rd)))) = Threw)) \<and>
   (backend' (Select_eq ''donations'' ''*'' ''status'' ''available'') = Resolved (Response rd' None) \<and>
     profiles' (Select_in ''profiles'' ''id, full_name'' ''id'' (spread_Set (map user_id (or_empty rd')))) =
       Resolved (Response pd' (Some e')) \<longrightarrow>
     error (fst (fetchDonations backend' profiles' st')) = None \<and>
     loading (fst (fetchDonations backend' profiles' st')) = False \<and>
     filter is_toast (snd (fetchDonations backend' profiles' st')) = [] \<and>
     map Donation.truncate (DonationsState.donations (fst (fetchDonations backend' profiles' st'))) = or_empty rd' \<and>
     (\<forall>r \<in> set (DonationsState.donations (fst (fetchDonations backend' profiles' st'))).
        DonationWithName.userName r = ''Anonymous'')) \<and>
   (error (fst (fetchDonations backend' profiles' st')) \<noteq> None \<longleftrightarrow>
      (\<forall>rd. backend' (Select_eq ''donations'' ''*'' ''status'' ''available'') \<noteq>
              Resolved (Response rd None)) \<or>
      (\<exists>rd. backend' (Select_eq ''donations'' ''*'' ''status'' ''available'') =
              Resolved (Response rd None) \<and>
            or_empty rd \<noteq> [] \<and>
            profiles' (Select_in ''profiles'' ''id, full_name'' ''id''
                        (spread_Set (map user_id (or_empty rd)))) = Threw))"
  (is "(?A1 \<and> ?A2 \<longrightarrow> ?B) \<and> ?E \<and> (?C1 \<and> ?C2 \<longrightarrow> ?D) \<and> ?F")
proof (intro conjI)
  show "?A1 \<and> ?A2 \<longrightarrow> ?B"
  proof (rule impI)
    assume a: "?A1 \<and> ?A2"
    then have a1: ?A1 and a2: ?A2 by simp_all
    show ?B
      unfolding fetchRequests_profiles_error
        [where backend = backend and profiles = profiles and st = st, OF a1 a2]
      by (simp add: fetchRequests_toasts comp_def HelpRequest_truncate_extend
          HelpRequest_userName_extend)
  qed
  show ?E
    by (rule fetchRequests_error_iff)
  show "?C1 \<and> ?C2 \<longrightarrow> ?D"
  proof (rule impI)
    assume a: "?C1 \<and> ?C2"
    then have a1: ?C1 and a2: ?C2 by simp_all
    show ?D
      unfolding fetchDonations_profiles_error
        [where backend = backend' and profiles = profiles' and st = st', OF a1 a2]
      by (simp add: fetchDonations_toasts comp_def Donation_truncate_extend
          Donation_userName_extend)
  qed
  show ?F
    by (rule fetchDonations_error_iff)
qed

theorem listing_profiles_failure_tolerated_witness:
  "fetchRequests
      (\<lambda>q. Resolved (Response (Some
        [\<lparr>Listing.id' = ''r1'', Listing.title = ''Need a ride'', Listing.description = Some ''To the clinic'',
          Listing.category = ''Services'', created_at = ''2025-01-03'', Donation.location = Some ''Pune'',
          user_id = ''u1'', HelpRequest.urgency = ''high''\<rparr>,
         \<lparr>Listing.id' = ''r2'', Listing.title = ''Winter Coat'', Listing.description = None,
          Listing.category = ''Clothing'', created_at = ''2025-01-02'', Donation.location = None,
          user_id = ''u2'', HelpRequest.urgency = ''low''\<rparr>,
         \<lparr>Listing.id' = ''r3'', Listing.title = ''School books'', Listing.description = Some ''Grade 5'',
          Listing.category = ''Education'', created_at = ''2025-01-01'', Donation.location = None,
          user_id = ''u1'', HelpRequest.urgency = ''medium''\<rparr>]) None))
      (\<lambda>q. Resolved (Response None (Some \<lparr>code = ''42501'', message = ''denied''\<rparr>)))
      \<lparr>loading = True, error = None, searchQuery = [], selectedCategory = ''All'',
        HelpRequestsState.requests = []\<rparr> =
     (\<lparr>loading = False, error = None, searchQuery = [], selectedCategory = ''All'',
       HelpRequestsState.requests =
         [\<lparr>Listing.id' = ''r1'', Listing.title = ''Need a ride'', Listing.description = Some ''To the clinic'',
          Listing.category = ''Services'', created_at = ''2025-01-03'', Donation.location = Some ''Pune'',
          user_id = ''u1'', HelpRequest.urgency = ''high'',
          HelpRequestWithName.userName = ''Anonymous''\<rparr>,
          \<lparr>Listing.id' = ''r2'', Listing.title = ''Winter Coat'', Listing.description = None,
          Listing.category = ''Clothing'', created_at = ''2025-01-02'', Donation.location = None,
          user_id = ''u2'', HelpRequest.urgency = ''low'',
          HelpRequestWithName.userName = ''Anonymous''\<rparr>,
          \<lparr>Listing.id' = ''r3'', Listing.title = ''School books'', Listing.description = Some ''Grade 5'',
          Listing.category = ''Education'', created_at = ''2025-01-01'', Donation.location = None,
          user_id = ''u1'', HelpRequest.urgency = ''medium'',
          HelpRequestWithName.userName = ''Anonymous''\<rparr>]\<rparr>,
      [Request (Select_eq ''help_requests'' ''*'' ''status'' ''open''),
       Request (Select_in ''profiles'' ''id, full_name'' ''id'' [''u1'', ''u2'']),
       Console_error ''Profiles fetch error:'']) \<and>
   fetchDonations
      (\<lambda>q. Resolved (Response None (Some \<lparr>code = ''42501'', message = ''denied''\<rparr>)))
      (\<lambda>q. Resolved (Response (Some []) None))
      \<lparr>loading = True, error = None, searchQuery = [], selectedCategory = ''All'',
        DonationsState.donations = []\<rparr> =
     (\<lparr>loading = False,
       error = Some ''Failed to load donations. Please try again.'',
       searchQuery = [], selectedCategory = ''All'', DonationsState.donations = []\<rparr>,
      [Request (Select_eq ''donations'' ''*'' ''status'' ''available''),
       Console_error ''Donations fetch error:'', Console_error ''Fetch error:''])"
  using listing_profiles_failure_tolerated
    [where backend = "(\<lambda>q. Resolved (Response (Some
        [\<lparr>Listing.id' = ''r1'', Listing.title = ''Need a ride'', Listing.description = Some ''To the clinic'',
          Listing.category = ''Services'', created_at = ''2025-01-03'', Donation.location = Some ''Pune'',
          user_id = ''u1'', HelpRequest.urgency = ''high''\<rparr>,
         \<lparr>Listing.id' = ''r2'', Listing.title = ''Winter Coat'', Listing.description = None,
          Listing.category = ''Clothing'', created_at = ''2025-01-02'', Donation.location = None,
          user_id = ''u2'', HelpRequest.urgency = ''low''\<rparr>,
         \<lparr>Listing.id' = ''r3'', Listing.title = ''School books'', Listing.description = Some ''Grade 5'',
          Listing.category = ''Education'', created_at = ''2025-01-01'', Donation.location = None,
          user_id = ''u1'', HelpRequest.urgency = ''medium''\<rparr>]) None))"
       and rd = "Some
        [\<lparr>Listing.id' = ''r1'', Listing.title = ''Need a ride'', Listing.description = Some ''To the clinic'',
          Listing.category = ''Services'', created_at = ''2025-01-03'', Donation.location = Some ''Pune'',
          user_id = ''u1'', HelpRequest.urgency = ''high''\<rparr>,
         \<lparr>Listing.id' = ''r2'', Listing.title = ''Winter Coat'', Listing.description = None,
          Listing.category = ''Clothing'', created_at = ''2025-01-02'', Donation.location = None,
          user_id = ''u2'', HelpRequest.urgency = ''low''\<rparr>,
         \<lparr>Listing.id' = ''r3'', Listing.title = ''School books'', Listing.description = Some ''Grade 5'',
          Listing.category = ''Education'', created_at = ''2025-01-01'', Donation.location = None,
          user_id = ''u1'', HelpRequest.urgency = ''medium''\<rparr>]"
       and profiles = "(\<lambda>q. Resolved (Response None (Some \<lparr>code = ''42501'', message = ''denied''\<rparr>)))"
       and pd = None and e = "\<lparr>code = ''42501'', message = ''denied''\<rparr>"
       and st = "\<lparr>loading = True, error = None, searchQuery = [], selectedCategory = ''All'',
        HelpRequestsState.requests = []\<rparr>"
       and backend' = "\<lambda>q. Resolved (Response None (Some \<lparr>code = ''42501'', message = ''denied''\<rparr>))"
       and rd' = None
       and profiles' = "(\<lambda>q. Resolved (Response (Some []) None))"
       and pd' = None and e' = "\<lparr>code = ''42501'', message = ''denied''\<rparr>"
       and st' = "\<lparr>loading = True, error = None, searchQuery = [], selectedCategory = ''All'',
        DonationsState.donations = []\<rparr>"]
  by (simp add: fetchRequests_def fetchRequests_try_def fetchDonations_def fetchDonations_try_def
      fetchProfileMap_def spread_Set_def Set_add_def profileMap_set_def or_else_def
      or_empty_def Let_def HelpRequest.defs HelpRequestWithName.defs Donation.defs
      DonationWithName.defs)

text \<open>
  The rows are fetched and the await of the profiles query throws: nothing but the profiles
  fetch failed, yet the error state is set and the fetched row is not stored.
\<close>

theorem listing_profiles_thrown_counterexample:
  "fetchRequests
      (\<lambda>q. Resolved (Response (Some
        [\<lparr>Listing.id' = ''r1'', Listing.title = ''Need a ride'', Listing.description = Some ''To the clinic'',
          Listing.category = ''Services'', created_at = ''2025-01-03'', Donation.location = Some ''Pune'',
          user_id = ''u1'', HelpRequest.urgency = ''high''\<rparr>]) None))
      (\<lambda>q. Threw)
      \<lparr>loading = True, error = None, searchQuery = [], selectedCategory = ''All'',
        HelpRequestsState.requests = []\<rparr> =
     (\<lparr>loading = False,
       error = Some ''Failed to load help requests. Please try again.'',
       searchQuery = [], selectedCategory = ''All'', HelpRequestsState.requests = []\<rparr>,
      [Request (Select_eq ''help_requests'' ''*'' ''status'' ''open''),
       Request (Select_in ''profiles'' ''id, full_name'' ''id'' [''u1'']),
       Console_error ''Fetch error:'']) \<and>
   fetchDonations
      (\<lambda>q. Resolved (Response (Some
        [\<lparr>Listing.id' = ''d1'', Listing.title = ''Rice'', Listing.description = Some ''5 kg bag'',
          Listing.category = ''Food'', created_at = ''2025-01-04'', Donation.location = Some ''Pune'',
          user_id = ''u3''\<rparr>]) None))
      (\<lambda>q. Threw)
      \<lparr>loading = True, error = None, searchQuery = [], selectedCategory = ''All'',
        DonationsState.donations = []\<rparr> =
     (\<lparr>loading = False,
       error = Some ''Failed to load donations. Please try again.'',
       searchQuery = [], selectedCategory = ''All'', DonationsState.donations = []\<rparr>,
      [Request (Select_eq ''donations'' ''*'' ''status'' ''available''),
       Request (Select_in ''profiles'' ''id, full_name'' ''id'' [''u3'']),
       Console_error ''Fetch error:''])"
  by (simp add: fetchRequests_def fetchRequests_try_def fetchDonations_def
      fetchDonations_try_def fetchProfileMap_def spread_Set_def Set_add_def or_empty_def
      Let_def)

text \<open>The client-side filter.\<close>

lemma js_includes_empty: "js_includes s []"
  by (cases s) simp_all

lemma toLowerCase_empty: "toLowerCase [] = []"
  by (simp add: toLowerCase_def)

lemma matchesSearch_iff:
  "matchesSearch q item \<longleftrightarrow>
     sublist (toLowerCase q) (toLowerCase (Listing.title item)) \<or>
     (\<exists>d. Listing.description item = Some d \<and> sublist (toLowerCase q) (toLowerCase d))"
  by (simp add: matchesSearch_def js_includes_iff_sublist split: option.splits)

lemma matchesSearch_empty: "matchesSearch [] item"
  by (simp add: matchesSearch_def toLowerCase_empty js_includes_empty)

text \<open>
  Claim C3. An item is in the filtered list of a listing page exactly when it is in the
  fetched list, the lower-cased search query is a substring of its lower-cased title or of
  its lower-cased description (when it has one), and the selected category is ``All'' or
  the item's category.
\<close>

theorem listing_filter_membership:
  "(x \<in> set (filteredRequests st) \<longleftrightarrow>
      x \<in> set (HelpRequestsState.requests st) \<and>
      (sublist (toLowerCase (searchQuery st)) (toLowerCase (Listing.title x)) \<or>
       (\<exists>d. Listing.description x = Some d \<and>
            sublist (toLowerCase (searchQuery st)) (toLowerCase d))) \<and>
      (selectedCategory st = ''All'' \<or> selectedCategory st = Listing.category x)) \<and>
   (y \<in> set (filteredDonations st') \<longleftrightarrow>
      y \<in> set (DonationsState.donations st') \<and>
      (sublist (toLowerCase (searchQuery st')) (toLowerCase (Listing.title y)) \<or>
       (\<exists>d. Listing.description y = Some d \<and>
            sublist (toLowerCase (searchQuery st')) (toLowerCase d))) \<and>
      (selectedCategory st' = ''All'' \<or> selectedCategory st' = Listing.category y))"
proof (rule conjI)
  show "x \<in> set (filteredRequests st) \<longleftrightarrow>
      x \<in> set (HelpRequestsState.requests st) \<and>
      (sublist (toLowerCase (searchQuery st)) (toLowerCase (Listing.title x)) \<or>
       (\<exists>d. Listing.description x = Some d \<and>
            sublist (toLowerCase (searchQuery st)) (toLowerCase d))) \<and>
      (selectedCategory st = ''All'' \<or> selectedCategory st = Listing.category x)"
    unfolding filteredRequests_def set_filter mem_Collect_eq matchesSearch_iff
      matchesCategory_def
    by (simp add: eq_commute)
  show "y \<in> set (filteredDonations st') \<longleftrightarrow>
      y \<in> set (DonationsState.donations st') \<and>
      (sublist (toLowerCase (searchQuery st')) (toLowerCase (Listing.title y)) \<or>
       (\<exists>d. Listing.description y = Some d \<and>
            sublist (toLowerCase (searchQuery st')) (toLowerCase d))) \<and>
      (selectedCategory st' = ''All'' \<or> selectedCategory st' = Listing.category y)"
    unfolding filteredDonations_def set_filter mem_Collect_eq matchesSearch_iff
      matchesCategory_def
    by (simp add: eq_commute)
qed

theorem listing_filter_membership_witness:
  "filteredRequests
      \<lparr>loading = False, error = None, searchQuery = ''COAT'', selectedCategory = ''All'',
        HelpRequestsState.requests =
         [\<lparr>Listing.id' = ''r1'', Listing.title = ''Need a ride'', Listing.description = Some ''To the clinic'',
          Listing.category = ''Services'', created_at = ''2025-01-03'', Donation.location = Some ''Pune'',
          user_id = ''u1'', HelpRequest.urgency = ''high'',
          HelpRequestWithName.userName = ''Asha''\<rparr>,
          \<lparr>Listing.id' = ''r2'', Listing.title = ''Winter Coat'', Listing.description = None,
          Listing.category = ''Clothing'', created_at = ''2025-01-02'', Donation.location = None,
          user_id = ''u2'', HelpRequest.urgency = ''low'',
          HelpRequestWithName.userName = ''Anonymous''\<rparr>,
          \<lparr>Listing.id' = ''r3'', Listing.title = ''School books'', Listing.description = Some ''Grade 5, with a raincoat'',
          Listing.category = ''Education'', created_at = ''2025-01-01'', Donation.location = None,
          user_id = ''u1'', HelpRequest.urgency = ''medium'',
          HelpRequestWithName.userName = ''Asha''\<rparr>]\<rparr> =
     [\<lparr>Listing.id' = ''r2'', Listing.title = ''Winter Coat'', Listing.description = None,
          Listing.category = ''Clothing'', created_at = ''2025-01-02'', Donation.location = None,
          user_id = ''u2'', HelpRequest.urgency = ''low'',
          HelpRequestWithName.userName = ''Anonymous''\<rparr>,
      \<lparr>Listing.id' = ''r3'', Listing.title = ''School books'', Listing.description = Some ''Grade 5, with a raincoat'',
          Listing.category = ''Education'', created_at = ''2025-01-01'', Donation.location = None,
          user_id = ''u1'', HelpRequest.urgency = ''medium'',
          HelpRequestWithName.userName = ''Asha''\<rparr>] \<and>
   filteredDonations
      \<lparr>loading = False, error = None, searchQuery = ''rice'', selectedCategory = ''Food'',
        DonationsState.donations =
         [\<lparr>Listing.id' = ''d1'', Listing.title = ''Rice'', Listing.description = Some ''5 kg bag'',
          Listing.category = ''Food'', created_at = ''2025-01-04'', Donation.location = Some ''Pune'',
          user_id = ''u3'',
          DonationWithName.userName = ''Anonymous''\<rparr>,
          \<lparr>Listing.id' = ''d2'', Listing.title = ''Laptop'', Listing.description = None,
          Listing.category = ''Electronics'', created_at = ''2025-01-05'', Donation.location = None,
          user_id = ''u1'',
          DonationWithName.userName = ''Asha''\<rparr>]\<rparr> =
     [\<lparr>Listing.id' = ''d1'', Listing.title = ''Rice'', Listing.description = Some ''5 kg bag'',
          Listing.category = ''Food'', created_at = ''2025-01-04'', Donation.location = Some ''Pune'',
          user_id = ''u3'',
          DonationWithName.userName = ''Anonymous''\<rparr>]"
  using listing_filter_membership
    [where st = "\<lparr>loading = False, error = None, searchQuery = ''COAT'', selectedCategory = ''All'',
        HelpRequestsState.requests =
         [\<lparr>Listing.id' = ''r1'', Listing.title = ''Need a ride'', Listing.description = Some ''To the clinic'',
          Listing.category = ''Services'', created_at = ''2025-01-03'', Donation.location = Some ''Pune'',
          user_id = ''u1'', HelpRequest.urgency = ''high'',
          HelpRequestWithName.userName = ''Asha''\<rparr>,
          \<lparr>Listing.id' = ''r2'', Listing.title = ''Winter Coat'', Listing.description = None,
          Listing.category = ''Clothing'', created_at = ''2025-01-02'', Donation.location = None,
          user_id = ''u2'', HelpRequest.urgency = ''low'',
          HelpRequestWithName.userName = ''Anonymous''\<rparr>,
          \<lparr>Listing.id' = ''r3'', Listing.title = ''School books'', Listing.description = Some ''Grade 5, with a raincoat'',
          Listing.category = ''Education'', created_at = ''2025-01-01'', Donation.location = None,
          user_id = ''u1'', HelpRequest.urgency = ''medium'',
          HelpRequestWithName.userName = ''Asha''\<rparr>]\<rparr>"
       and x = "\<lparr>Listing.id' = ''r2'', Listing.title = ''Winter Coat'', Listing.description = None,
          Listing.category = ''Clothing'', created_at = ''2025-01-02'', Donation.location = None,
          user_id = ''u2'', HelpRequest.urgency = ''low'',
          HelpRequestWithName.userName = ''Anonymous''\<rparr>"
       and st' = "\<lparr>loading = False, error = None, searchQuery = ''rice'', selectedCategory = ''Food'',
        DonationsState.donations =
         [\<lparr>Listing.id' = ''d1'', Listing.title = ''Rice'', Listing.description = Some ''5 kg bag'',
          Listing.category = ''Food'', created_at = ''2025-01-04'', Donation.location = Some ''Pune'',
          user_id = ''u3'',
          DonationWithName.userName = ''Anonymous''\<rparr>,
          \<lparr>Listing.id' = ''d2'', Listing.title = ''Laptop'', Listing.description = None,
          Listing.category = ''Electronics'', created_at = ''2025-01-05'', Donation.location = None,
          user_id = ''u1'',
          DonationWithName.userName = ''Asha''\<rparr>]\<rparr>"
       and y = "\<lparr>Listing.id' = ''d1'', Listing.title = ''Rice'', Listing.description = Some ''5 kg bag'',
          Listing.category = ''Food'', created_at = ''2025-01-04'', Donation.location = Some ''Pune'',
          user_id = ''u3'',
          DonationWithName.userName = ''Anonymous''\<rparr>"]
  by (simp add: filteredRequests_def filteredDonations_def matchesSearch_def
      matchesCategory_def toLowerCase_def lower_char_def char_of_def bit_Suc_0_iff)

text \<open>
  Claim C10. With the empty search query and the category ``All'' the filtered list is
  the fetched list; for every query and category it is a subsequence of the fetched list.
\<close>

theorem listing_filter_identity_subseq:
  "(searchQuery st = [] \<and> selectedCategory st = ''All'' \<longrightarrow>
      filteredRequests st = HelpRequestsState.requests st) \<and>
   subseq (filteredRequests st) (HelpRequestsState.requests st) \<and>
   (searchQuery st' = [] \<and> selectedCategory st' = ''All'' \<longrightarrow>
      filteredDonations st' = DonationsState.donations st') \<and>
   subseq (filteredDonations st') (DonationsState.donations st')"
  by (simp add: filteredRequests_def filteredDonations_def matchesSearch_empty
      matchesCategory_def)

theorem listing_filter_identity_subseq_witness:
  "filteredRequests
      \<lparr>loading = False, error = None, searchQuery = '''', selectedCategory = ''All'',
        HelpRequestsState.requests =
         [\<lparr>Listing.id' = ''r1'', Listing.title = ''Need a ride'', Listing.description = Some ''To the clinic'',
          Listing.category = ''Services'', created_at = ''2025-01-03'', Donation.location = Some ''Pune'',
          user_id = ''u1'', HelpRequest.urgency = ''high'',
          HelpRequestWithName.userName = ''Asha''\<rparr>,
          \<lparr>Listing.id' = ''r2'', Listing.title = ''Winter Coat'', Listing.description = None,
          Listing.category = ''Clothing'', created_at = ''2025-01-02'', Donation.location = None,
          user_id = ''u2'', HelpRequest.urgency = ''low'',
          HelpRequestWithName.userName = ''Anonymous''\<rparr>,
          \<lparr>Listing.id' = ''r3'', Listing.title = ''School books'', Listing.description = Some ''Grade 5, with a raincoat'',
          Listing.category = ''Education'', created_at = ''2025-01-01'', Donation.location = None,
          user_id = ''u1'', HelpRequest.urgency = ''medium'',
          HelpRequestWithName.userName = ''Asha''\<rparr>]\<rparr> =
     [\<lparr>Listing.id' = ''r1'', Listing.title = ''Need a ride'', Listing.description = Some ''To the clinic'',
          Listing.category = ''Services'', created_at = ''2025-01-03'', Donation.location = Some ''Pune'',
          user_id = ''u1'', HelpRequest.urgency = ''high'',
          HelpRequestWithName.userName = ''Asha''\<rparr>,
      \<lparr>Listing.id' = ''r2'', Listing.title = ''Winter Coat'', Listing.description = None,
          Listing.category = ''Clothing'', created_at = ''2025-01-02'', Donation.location = None,
          user_id = ''u2'', HelpRequest.urgency = ''low'',
          HelpRequestWithName.userName = ''Anonymous''\<rparr>,
      \<lparr>Listing.id' = ''r3'', Listing.title = ''School books'', Listing.description = Some ''Grade 5, with a raincoat'',
          Listing.category = ''Education'', created_at = ''2025-01-01'', Donation.location = None,
          user_id = ''u1'', HelpRequest.urgency = ''medium'',
          HelpRequestWithName.userName = ''Asha''\<rparr>] \<and>
   filteredDonations
      \<lparr>loading = False, error = None, searchQuery = '''', selectedCategory = ''All'',
        DonationsState.donations =
         [\<lparr>Listing.id' = ''d1'', Listing.title = ''Rice'', Listing.description = Some ''5 kg bag'',
          Listing.category = ''Food'', created_at = ''2025-01-04'', Donation.location = Some ''Pune'',
          user_id = ''u3'',
          DonationWithName.userName = ''Anonymous''\<rparr>,
          \<lparr>Listing.id' = ''d2'', Listing.title = ''Laptop'', Listing.description = None,
          Listing.category = ''Electronics'', created_at = ''2025-01-05'', Donation.location = None,
          user_id = ''u1'',
          DonationWithName.userName = ''Asha''\<rparr>]\<rparr> =
     [\<lparr>Listing.id' = ''d1'', Listing.title = ''Rice'', Listing.description = Some ''5 kg bag'',
          Listing.category = ''Food'', created_at = ''2025-01-04'', Donation.location = Some ''Pune'',
          user_id = ''u3'',
          DonationWithName.userName = ''Anonymous''\<rparr>,
      \<lparr>Listing.id' = ''d2'', Listing.title = ''Laptop'', Listing.description = None,
          Listing.category = ''Electronics'', created_at = ''2025-01-05'', Donation.location = None,
          user_id = ''u1'',
          DonationWithName.userName = ''Asha''\<rparr>]"
  using listing_filter_identity_subseq
    [where st = "\<lparr>loading = False, error = None, searchQuery = '''', selectedCategory = ''All'',
        HelpRequestsState.requests =
         [\<lparr>Listing.id' = ''r1'', Listing.title = ''Need a ride'', Listing.description = Some ''To the clinic'',
          Listing.category = ''Services'', created_at = ''2025-01-03'', Donation.location = Some ''Pune'',
          user_id = ''u1'', HelpRequest.urgency = ''high'',
          HelpRequestWithName.userName = ''Asha''\<rparr>,
          \<lparr>Listing.id' = ''r2'', Listing.title = ''Winter Coat'', Listing.description = None,
          Listing.category = ''Clothing'', created_at = ''2025-01-02'', Donation.location = None,
          user_id = ''u2'', HelpRequest.urgency = ''low'',
          HelpRequestWithName.userName = ''Anonymous''\<rparr>,
          \<lparr>Listing.id' = ''r3'', Listing.title = ''School books'', Listing.description = Some ''Grade 5, with a raincoat'',
          Listing.category = ''Education'', created_at = ''2025-01-01'', Donation.location = None,
          user_id = ''u1'', HelpRequest.urgency = ''medium'',
          HelpRequestWithName.userName = ''Asha''\<rparr>]\<rparr>"
       and st' = "\<lparr>loading = False, error = None, searchQuery = '''', selectedCategory = ''All'',
        DonationsState.donations =
         [\<lparr>Listing.id' = ''d1'', Listing.title = ''Rice'', Listing.description = Some ''5 kg bag'',
          Listing.category = ''Food'', created_at = ''2025-01-04'', Donation.location = Some ''Pune'',
          user_id = ''u3'',
          DonationWithName.userName = ''Anonymous''\<rparr>,
          \<lparr>Listing.id' = ''d2'', Listing.title = ''Laptop'', Listing.description = None,
          Listing.category = ''Electronics'', created_at = ''2025-01-05'', Donation.location = None,
          user_id = ''u1'',
          DonationWithName.userName = ''Asha''\<rparr>]\<rparr>"]
  by simp

end
